theory Spec2Isabelle
  imports Complex_Main "HOL-Library.AList" "HOL-Library.Word"
begin

unbundle bit_operations_syntax

section \<open>Data model\<close>

text \<open>
  JavaScript numbers are modelled as real numbers: the arithmetic of the router and of the
  scorer is read over the reals, without floating-point rounding, infinities or NaN.
  An optional field \<open>f?: T\<close> is a field of type \<open>T option\<close>.
\<close>

type_synonym number = real

text \<open>\<open>OTCQuote.settlementMeta\<close> (src/types/routing/quotes).\<close>

record SettlementMeta =
  settlementDays :: number
  counterpartyRisk :: number
  supportsReservation :: bool
  paymentMethods :: "string list option"

text \<open>\<open>interface OTCQuote\<close>.\<close>

record OTCQuote =
  venueId :: string
  fromToken :: string
  toToken :: string
  amountIn :: number
  amountOut :: number
  maxAmountIn :: "number option"
  feeBps :: "number option"
  expiry :: number
  depositAddress :: "string option"
  lastUpdated :: number
  settlementMeta :: "SettlementMeta option"

text \<open>\<open>interface RouteStep\<close> and \<open>interface RouteResult\<close> (src/types/routing/route).\<close>

record RouteStep =
  stepFromToken :: string
  stepToToken :: string
  stepVenueId :: string
  chainId :: nat
  stepAmountIn :: number
  stepAmountOut :: number
  stepFeeBps :: number
  estimatedDurationMs :: number

record RouteResult =
  steps :: "RouteStep list"
  totalIn :: number
  totalOut :: number
  effectiveRate :: number
  totalFeesBps :: number
  confidence :: number
  timestamp :: number

text \<open>\<open>interface ProvisionalQuote\<close> and \<open>interface ReservedQuote extends ProvisionalQuote\<close>.\<close>

text \<open>
  In \<open>scoringMeta\<close> the counterparty risk and the confidence are values that the scorer
  can compute as \<open>NaN\<close> (see the scorer below): \<open>None\<close> is a value that is not a number.
\<close>

record ScoringMeta =
  smSettlementDays :: number
  smCounterpartyRisk :: "number option"
  timePenalty :: number
  smConfidence :: "number option"

datatype QuoteType = OTC | DEX | OTC_DEX

record ProvisionalQuote =
  quoteId :: string
  route :: "RouteResult option"
  pqAmountIn :: number
  pqAmountOut :: number
  netAmountOut :: number
  pqFeeBps :: number
  expiryTs :: number
  createdTs :: number
  scoringMeta :: ScoringMeta
  quoteType :: QuoteType

record AccountDetails =
  bankName :: "string option"
  accountNumber :: "string option"
  pixKey :: "string option"
  iban :: "string option"
  routingNumber :: "string option"

record DepositInstructions =
  payMethod :: string
  accountDetails :: AccountDetails
  amount :: number
  paymentReference :: string
  qrCodeData :: "string option"
  depositExpiryTs :: number

record OtcReservationMeta =
  otcReservationId :: "string option"
  rmDepositAddress :: "string option"
  rmDepositInstructions :: "DepositInstructions option"

record ReservedQuote = ProvisionalQuote +
  reservationId :: string
  reservedByClient :: string
  reservedUntilTs :: number
  otcReservationMeta :: "OtcReservationMeta option"

text \<open>\<open>interface DepositRecord\<close>.\<close>

datatype DepositStatus = PENDING | CONFIRMED | DEPOSIT_FAILED | DEPOSIT_EXPIRED

record DepositRecord =
  depositId :: string
  drQuoteId :: string
  clientId :: string
  amountExpected :: number
  amountReceived :: "number option"
  drInstructions :: DepositInstructions
  drStatus :: DepositStatus
  receivedAt :: "number option"
  bankTxId :: "string option"
  drPaymentReference :: string

text \<open>\<open>enum ExecutionStatus\<close> and \<open>interface ExecutionRecord\<close>.\<close>

datatype ExecutionStatus = PENDING_APPROVAL | EXECUTING | COMPLETED | FAILED | EXPIRED

record ExecutionRecord =
  executionId :: string
  exQuoteId :: string
  exRoute :: RouteResult
  status :: ExecutionStatus
  approvalToken :: "string option"
  transactionHashes :: "string list option"
  currentStep :: "nat option"
  createdAt :: number
  completedAt :: "number option"
  error :: "string option"
  fallbackRoute :: "RouteResult option"

section \<open>The key-value store\<close>

text \<open>
  The Redis keyspace is an association list from keys to values, in insertion order. A value
  is the JSON text of one of the records above, or a plain string (an identifier stored by an
  index key); the model keeps the record itself, so \<open>JSON.parse (JSON.stringify r) = r\<close>.
  Reading a key that holds a value of another kind counts as a value that fails to parse.
  Expiry by TTL is not modelled: an entry stays until it is overwritten or deleted.
\<close>

datatype entry =
    QuoteEntry OTCQuote
  | ProvisionalEntry ProvisionalQuote
  | ReservedEntry ReservedQuote
  | DepositEntry DepositRecord
  | ExecutionEntry ExecutionRecord
  | StringEntry string

type_synonym store = "(string \<times> entry) list"

definition redis_get :: "store \<Rightarrow> string \<Rightarrow> entry option" where
  "redis_get s k = map_of s k"

definition redis_set :: "store \<Rightarrow> string \<Rightarrow> entry \<Rightarrow> store" where
  "redis_set s k v = AList.update k v s"

definition redis_del :: "store \<Rightarrow> string \<Rightarrow> store" where
  "redis_del s k = AList.delete k s"

text \<open>
  Glob matching of \<open>SCAN ... MATCH pattern\<close> and \<open>KEYS pattern\<close>: \<open>*\<close> matches any run of
  characters, \<open>?\<close> any one character, every other character itself. This is the matching of
  the store for patterns without an opening bracket and without a backslash; the bracket
  classes and the escapes that those two characters start are not modelled, and the
  properties below that depend on the matching are stated for such patterns.
\<close>

fun glob_match :: "string \<Rightarrow> string \<Rightarrow> bool" where
  "glob_match [] k = (k = [])"
| "glob_match (p # ps) k =
     (if p = CHR ''*''
      then (glob_match ps k \<or> (case k of [] \<Rightarrow> False | _ # k' \<Rightarrow> glob_match (p # ps) k'))
      else (case k of [] \<Rightarrow> False
            | c # k' \<Rightarrow> (p = CHR ''?'' \<or> p = c) \<and> glob_match ps k'))"

text \<open>\<open>scanKeys\<close>: the cursor loop of SCAN returns every key matching the pattern.\<close>

definition scanKeys :: "store \<Rightarrow> string \<Rightarrow> string list" where
  "scanKeys s pattern = filter (glob_match pattern) (map fst s)"

text \<open>\<open>RedisKey\<close> (src/types/routing/redis).\<close>

definition otcQuoteKey :: "string \<Rightarrow> string \<Rightarrow> string \<Rightarrow> string" where
  "otcQuoteKey from to venue = ''otc:quotes:'' @ from @ '':'' @ to @ '':'' @ venue"

definition provisionalQuoteKey :: "string \<Rightarrow> string" where
  "provisionalQuoteKey qid = ''quote:prov:'' @ qid"

definition reservedQuoteKey :: "string \<Rightarrow> string" where
  "reservedQuoteKey qid = ''quote:reserved:'' @ qid"

definition depositKey :: "string \<Rightarrow> string" where
  "depositKey did = ''deposit:'' @ did"

definition routingEdgeKey :: "string \<Rightarrow> string \<Rightarrow> string \<Rightarrow> string \<Rightarrow> string" where
  "routingEdgeKey chain from to venue =
     ''routing:edge:'' @ chain @ '':'' @ from @ '':'' @ to @ '':'' @ venue"

text \<open>\<open>String.prototype.startsWith\<close>.\<close>

definition startsWith :: "string \<Rightarrow> string \<Rightarrow> bool" where
  "startsWith str p = (take (length p) str = p)"

section \<open>Router: caching quotes\<close>

text \<open>
  \<open>OtcRoutingService.cacheQuote\<close>, and \<open>cacheQuotes\<close>, whose pipeline performs the same
  write for each quote of the batch in order.
\<close>

definition quoteCacheKey :: "OTCQuote \<Rightarrow> string" where
  "quoteCacheKey quote =
     (if startsWith (venueId quote) ''dex:''
      then routingEdgeKey ''solana'' (fromToken quote) (toToken quote) (venueId quote)
      else otcQuoteKey (fromToken quote) (toToken quote) (venueId quote))"

definition cacheQuote :: "store \<Rightarrow> OTCQuote \<Rightarrow> store" where
  "cacheQuote s quote = redis_set s (quoteCacheKey quote) (QuoteEntry quote)"

definition cacheQuotes :: "store \<Rightarrow> OTCQuote list \<Rightarrow> store" where
  "cacheQuotes s quotes = foldl cacheQuote s quotes"

section \<open>Router: loading quotes\<close>

text \<open>
  \<open>OtcRoutingService.loadQuotes\<close>: scan both key families, fetch the values with MGET,
  drop the values that are missing or do not parse.
\<close>

definition parseQuote :: "entry option \<Rightarrow> OTCQuote option" where
  "parseQuote v = (case v of Some (QuoteEntry q) \<Rightarrow> Some q | _ \<Rightarrow> None)"

definition loadQuotes :: "store \<Rightarrow> string \<Rightarrow> string \<Rightarrow> OTCQuote list" where
  "loadQuotes s from to =
     (let otcKeys = scanKeys s (otcQuoteKey from to ''*'');
          dexKeys = scanKeys s (''routing:edge:solana:'' @ from @ '':'' @ to @ '':dex:*'');
          allKeys = otcKeys @ dexKeys
      in List.map_filter (\<lambda>k. parseQuote (redis_get s k)) allKeys)"

section \<open>Router: per-leg output\<close>

text \<open>
  \<open>OtcRoutingService.computeOutput\<close>. The guard \<open>!quote.amountIn || quote.amountIn <= 0\<close>
  is \<open>amountIn \<le> 0\<close> on the reals; \<open>quote.feeBps ? a : b\<close> takes the first branch when the
  fee is present and not zero.
\<close>

definition computeOutput :: "number \<Rightarrow> OTCQuote \<Rightarrow> number" where
  "computeOutput x quote =
     (if amountIn quote \<le> 0 then 0
      else let rate = amountOut quote / amountIn quote;
               gross = x * rate
           in (case feeBps quote of
                 Some f \<Rightarrow> if f \<noteq> 0 then gross - (gross * f) / 10000 else gross
               | None \<Rightarrow> gross))"

text \<open>The fee of a quote in the formula of the specification: a missing fee counts as 0.\<close>

definition feeOrZero :: "OTCQuote \<Rightarrow> number" where
  "feeOrZero quote = (case feeBps quote of Some f \<Rightarrow> f | None \<Rightarrow> 0)"

section \<open>Router: best route\<close>

text \<open>\<open>OtcRoutingService.toRouteStep\<close>.\<close>

definition toRouteStep :: "OTCQuote \<Rightarrow> number \<Rightarrow> number \<Rightarrow> RouteStep" where
  "toRouteStep quote ain aout =
     \<lparr>stepFromToken = fromToken quote,
      stepToToken = toToken quote,
      stepVenueId = venueId quote,
      chainId = (if startsWith (venueId quote) ''dex:'' then 101 else 0),
      stepAmountIn = ain,
      stepAmountOut = aout,
      stepFeeBps = feeOrZero quote,
      estimatedDurationMs = (if startsWith (venueId quote) ''dex:'' then 30000 else 0)\<rparr>"

text \<open>
  The service keeps the best route so far in its field \<open>bestRoute\<close>, one field for all
  calls in flight. The field is state passed explicitly: \<open>updateBest\<close> takes its value and
  returns the value it leaves. The method runs without suspension.
\<close>

type_synonym bestRouteField = "RouteResult option"

definition updateBest :: "bestRouteField \<Rightarrow> RouteResult \<Rightarrow> bestRouteField" where
  "updateBest bestRoute candidate =
     (case bestRoute of
        None \<Rightarrow> Some candidate
      | Some b \<Rightarrow> if totalOut candidate > totalOut b then Some candidate else Some b)"

text \<open>
  The three checks every leg of \<open>getBestRoute\<close> passes before it is combined, each a
  \<open>continue\<close> in the source: the quote outlives the expiry guard, the amount entering the
  leg does not exceed a set (non-zero) \<open>maxAmountIn\<close>, and the computed output is positive.
  The result is the output of the leg, or \<open>None\<close> when the quote is skipped.
\<close>

definition exceedsMax :: "OTCQuote \<Rightarrow> number \<Rightarrow> bool" where
  "exceedsMax quote amt = (case maxAmountIn quote of Some m \<Rightarrow> m \<noteq> 0 \<and> amt > m | None \<Rightarrow> False)"

definition legOutput :: "number \<Rightarrow> number \<Rightarrow> OTCQuote \<Rightarrow> number option" where
  "legOutput expiryGuard amt quote =
     (if expiry quote \<le> expiryGuard then None
      else if exceedsMax quote amt then None
      else let out = computeOutput amt quote in if out \<le> 0 then None else Some out)"

definition oneHopRoutes :: "number \<Rightarrow> number \<Rightarrow> number \<Rightarrow> OTCQuote list \<Rightarrow> RouteResult list" where
  "oneHopRoutes now expiryGuard ain quotes =
     concat (map (\<lambda>quote.
       case legOutput expiryGuard ain quote of
         None \<Rightarrow> []
       | Some out \<Rightarrow>
           [\<lparr>steps = [toRouteStep quote ain out],
             totalIn = ain, totalOut = out, effectiveRate = out / ain,
             totalFeesBps = feeOrZero quote, confidence = 1, timestamp = now\<rparr>]) quotes)"

definition twoHopRoutes ::
  "number \<Rightarrow> number \<Rightarrow> number \<Rightarrow> OTCQuote list \<Rightarrow> OTCQuote list \<Rightarrow> RouteResult list" where
  "twoHopRoutes now expiryGuard ain leg1 leg2 =
     concat (map (\<lambda>q1.
       case legOutput expiryGuard ain q1 of
         None \<Rightarrow> []
       | Some midOut \<Rightarrow>
           concat (map (\<lambda>q2.
             case legOutput expiryGuard midOut q2 of
               None \<Rightarrow> []
             | Some finalOut \<Rightarrow>
                 [\<lparr>steps = [toRouteStep q1 ain midOut, toRouteStep q2 midOut finalOut],
                   totalIn = ain, totalOut = finalOut, effectiveRate = finalOut / ain,
                   totalFeesBps = feeOrZero q1 + feeOrZero q2,
                   confidence = 1, timestamp = now\<rparr>]) leg2)) leg1)"

definition threeHopRoutes ::
  "number \<Rightarrow> number \<Rightarrow> number \<Rightarrow> OTCQuote list \<Rightarrow> OTCQuote list \<Rightarrow> OTCQuote list
     \<Rightarrow> RouteResult list" where
  "threeHopRoutes now expiryGuard ain leg1 leg2 leg3 =
     concat (map (\<lambda>q1.
       case legOutput expiryGuard ain q1 of
         None \<Rightarrow> []
       | Some mid1Out \<Rightarrow>
           concat (map (\<lambda>q2.
             case legOutput expiryGuard mid1Out q2 of
               None \<Rightarrow> []
             | Some mid2Out \<Rightarrow>
                 concat (map (\<lambda>q3.
                   case legOutput expiryGuard mid2Out q3 of
                     None \<Rightarrow> []
                   | Some finalOut \<Rightarrow>
                       [\<lparr>steps = [toRouteStep q1 ain mid1Out,
                                  toRouteStep q2 mid1Out mid2Out,
                                  toRouteStep q3 mid2Out finalOut],
                         totalIn = ain, totalOut = finalOut, effectiveRate = finalOut / ain,
                         totalFeesBps = feeOrZero q1 + feeOrZero q2 + feeOrZero q3,
                         confidence = 1, timestamp = now\<rparr>]) leg3)) leg2)) leg1)"

text \<open>
  The intermediaries of a call: the requested ones, or the three stablecoins when none is
  requested; the 2-hop search skips those equal to an endpoint, the 3-hop search uses
  ordered pairs of distinct ones among the first two.
\<close>

definition commonIntermediaries :: "string list \<Rightarrow> string list" where
  "commonIntermediaries intermediates =
     (if length intermediates > 0 then intermediates else [''USDC'', ''USDT'', ''EURC''])"

definition twoHopMids :: "string \<Rightarrow> string \<Rightarrow> string list \<Rightarrow> string list" where
  "twoHopMids from to intermediates =
     filter (\<lambda>mid. mid \<noteq> from \<and> mid \<noteq> to) (commonIntermediaries intermediates)"

definition threeHopMids :: "string \<Rightarrow> string \<Rightarrow> string list \<Rightarrow> (string \<times> string) list" where
  "threeHopMids from to intermediates =
     (let limited = take 2 (commonIntermediaries intermediates)
      in concat (map (\<lambda>mid1.
           if mid1 = from \<or> mid1 = to then []
           else concat (map (\<lambda>mid2.
                  if mid2 = from \<or> mid2 = to \<or> mid2 = mid1 then [] else [(mid1, mid2)])
                limited)) limited))"

text \<open>
  The candidate routes that one call of \<open>getBestRoute\<close> constructs: the 2-hop routes of
  all intermediaries, the 3-hop routes of each pair of intermediaries in turn, and the 1-hop
  routes. The store is read as it is when the call starts.
\<close>

definition twoHopCandidates ::
  "store \<Rightarrow> number \<Rightarrow> number \<Rightarrow> string \<Rightarrow> string \<Rightarrow> string list \<Rightarrow> number \<Rightarrow> RouteResult list" where
  "twoHopCandidates s now ain from to intermediates minExpiryMs =
     concat (map (\<lambda>mid.
               twoHopRoutes now (now + minExpiryMs) ain
                 (loadQuotes s from mid) (loadQuotes s mid to))
             (twoHopMids from to intermediates))"

definition threeHopCandidates ::
  "store \<Rightarrow> number \<Rightarrow> number \<Rightarrow> string \<Rightarrow> string \<Rightarrow> string list \<Rightarrow> number
     \<Rightarrow> RouteResult list list" where
  "threeHopCandidates s now ain from to intermediates minExpiryMs =
     map (\<lambda>(mid1, mid2).
            threeHopRoutes now (now + minExpiryMs) ain
              (loadQuotes s from mid1) (loadQuotes s mid1 mid2) (loadQuotes s mid2 to))
         (threeHopMids from to intermediates)"

definition oneHopCandidates ::
  "store \<Rightarrow> number \<Rightarrow> number \<Rightarrow> string \<Rightarrow> string \<Rightarrow> number \<Rightarrow> RouteResult list" where
  "oneHopCandidates s now ain from to minExpiryMs =
     oneHopRoutes now (now + minExpiryMs) ain (loadQuotes s from to)"

definition candidateRoutes ::
  "store \<Rightarrow> number \<Rightarrow> number \<Rightarrow> string \<Rightarrow> string \<Rightarrow> string list \<Rightarrow> number \<Rightarrow> RouteResult list" where
  "candidateRoutes s now ain from to intermediates minExpiryMs =
     twoHopCandidates s now ain from to intermediates minExpiryMs
     @ concat (threeHopCandidates s now ain from to intermediates minExpiryMs)
     @ oneHopCandidates s now ain from to minExpiryMs"

text \<open>The quotes counted by \<open>consideredQuotes\<close>: every quote loaded during the call.\<close>

definition consideredQuotesOf ::
  "store \<Rightarrow> string \<Rightarrow> string \<Rightarrow> string list \<Rightarrow> OTCQuote list" where
  "consideredQuotesOf s from to intermediates =
     loadQuotes s from to
     @ concat (map (\<lambda>mid. loadQuotes s from mid @ loadQuotes s mid to)
                 (twoHopMids from to intermediates))
     @ concat (map (\<lambda>(mid1, mid2).
                   loadQuotes s from mid1 @ loadQuotes s mid1 mid2 @ loadQuotes s mid2 to)
                 (threeHopMids from to intermediates))"

record BestRouteResponse =
  bestRoute :: "RouteResult option"
  consideredQuotes :: nat

text \<open>
  A call of \<open>getBestRoute\<close> is suspended at each \<open>await\<close>, and other calls of the service
  run meanwhile on the same field. The calls in flight are the argument \<open>env\<close>: \<open>env k\<close> is
  what they do to the field while this call waits at its \<open>k\<close>-th \<open>await\<close>. The awaits are:
  0, the load of the 1-hop quotes; 1, the loads of the 2-hop legs; \<open>2 + j\<close>, the load of the
  legs of the \<open>j\<close>-th pair of intermediaries in the 3-hop loop. A call that nothing
  interleaves with has the environment \<open>noInterference\<close>.
\<close>

type_synonym interference = "nat \<Rightarrow> bestRouteField \<Rightarrow> bestRouteField"

definition noInterference :: interference where
  "noInterference k b = b"

text \<open>
  The 3-hop loop: for each pair of intermediaries, wait for its legs, then hand its routes
  to \<open>updateBest\<close>.
\<close>

fun threeHopLoop ::
  "interference \<Rightarrow> nat \<Rightarrow> RouteResult list list \<Rightarrow> bestRouteField \<Rightarrow> bestRouteField" where
  "threeHopLoop env k [] b = b"
| "threeHopLoop env k (routes # rest) b =
     threeHopLoop env (Suc k) rest (foldl updateBest (env k b) routes)"

text \<open>
  \<open>OtcRoutingService.getBestRoute\<close>, for the clock value \<open>now\<close>: the field is set to null,
  the call waits for the 1-hop quotes and for the 2-hop legs, hands the 2-hop routes to
  \<open>updateBest\<close>, runs the 3-hop loop, hands the 1-hop routes to \<open>updateBest\<close> and returns
  the field. The field is left holding the route returned.
\<close>

definition getBestRoute ::
  "interference \<Rightarrow> store \<Rightarrow> number \<Rightarrow> number \<Rightarrow> string \<Rightarrow> string \<Rightarrow> string list \<Rightarrow> number
     \<Rightarrow> BestRouteResponse" where
  "getBestRoute env s now ain from to intermediates minExpiryMs =
     (let b0 = None;
          b1 = env 1 (env 0 b0);
          b2 = foldl updateBest b1 (twoHopCandidates s now ain from to intermediates minExpiryMs);
          b3 = threeHopLoop env 2
                 (threeHopCandidates s now ain from to intermediates minExpiryMs) b2;
          b4 = foldl updateBest b3 (oneHopCandidates s now ain from to minExpiryMs)
      in \<lparr>bestRoute = b4,
          consideredQuotes = length (consideredQuotesOf s from to intermediates)\<rparr>)"

text \<open>
  What another call does to the field when it starts: \<open>this.bestRoute = null\<close>, the first
  statement of \<open>getBestRoute\<close>.
\<close>

definition otherCallStarts :: "bestRouteField \<Rightarrow> bestRouteField" where
  "otherCallStarts b = None"





section \<open>Settlement scorer\<close>

text \<open>
  The two configuration tables of \<open>SettlementScoringService\<close> are object literals, read
  by \<open>table[key]\<close>. Such a read gives the value of an own key, \<open>undefined\<close> for an unknown
  key, and for the name of a member that every object inherits (\<open>constructor\<close>,
  \<open>toString\<close>, ...) that member, which is not a number.
\<close>

datatype tableLookup = Own number | Undefined | Inherited

definition inheritedMembers :: "string list" where
  "inheritedMembers =
     [''constructor'', ''__proto__'', ''hasOwnProperty'', ''isPrototypeOf'',
      ''propertyIsEnumerable'', ''toLocaleString'', ''toString'', ''valueOf'',
      ''__defineGetter__'', ''__defineSetter__'', ''__lookupGetter__'', ''__lookupSetter__'']"

text \<open>
  \<open>volatilityParams\<close> is read only with keys of the form \<open>from/to\<close>. No inherited member
  has a slash in its name, so these reads give an own value or \<open>undefined\<close> (\<open>None\<close>).
\<close>

definition volatilityParams :: "string \<Rightarrow> number option" where
  "volatilityParams pair =
     (if pair = ''BRL/EUR'' then Some 0.005
      else if pair = ''MXN/USD'' then Some 0.004
      else if pair = ''NGN/EUR'' then Some 0.008
      else None)"

text \<open>\<open>counterpartyRisk\<close> is read with any venue id.\<close>

definition counterpartyRiskTable :: "string \<Rightarrow> tableLookup" where
  "counterpartyRiskTable venue =
     (if venue = ''otc:brl-eur:provider1'' then Own 0.001
      else if venue = ''otc:mxn-usd:provider1'' then Own 0.001
      else if venue = ''otc:ngn-eur:provider1'' then Own 0.002
      else if venue = ''otc:stablecoin:provider1'' then Own 0.0005
      else if venue \<in> set inheritedMembers then Inherited
      else Undefined)"

text \<open>
  A value computed from such a read is a number or not: \<open>None\<close> is a value that is not a
  number (an inherited member, or the \<open>NaN\<close> that arithmetic makes of it).
\<close>

type_synonym maybeNumber = "number option"

text \<open>
  \<open>a || b\<close> on numbers takes \<open>b\<close> when \<open>a\<close> is undefined or zero: \<open>truthy\<close> keeps a
  value that is present and not zero.
\<close>

definition truthy :: "number option \<Rightarrow> number option" where
  "truthy v = (case v of Some x \<Rightarrow> if x \<noteq> 0 then Some x else None | None \<Rightarrow> None)"

text \<open>\<open>table[key] || d\<close>: an inherited member is truthy and is taken as it is.\<close>

definition lookupOr :: "tableLookup \<Rightarrow> number \<Rightarrow> maybeNumber" where
  "lookupOr v d =
     (case v of Own x \<Rightarrow> if x \<noteq> 0 then Some x else Some d | Undefined \<Rightarrow> Some d | Inherited \<Rightarrow> None)"

text \<open>
  \<open>Math.max(...xs)\<close>: the greatest element, and \<open>-Infinity\<close> (here \<open>None\<close>) for no
  argument.
\<close>

fun jsMax :: "number list \<Rightarrow> number option" where
  "jsMax [] = None"
| "jsMax (x # xs) = (case jsMax xs of None \<Rightarrow> Some x | Some m \<Rightarrow> Some (max x m))"

text \<open>\<open>q.settlementMeta?.settlementDays || 0\<close>.\<close>

definition quoteSettlementDays :: "OTCQuote \<Rightarrow> number" where
  "quoteSettlementDays q =
     (case truthy (map_option settlementDays (settlementMeta q)) of Some d \<Rightarrow> d | None \<Rightarrow> 0)"

text \<open>
  \<open>q.settlementMeta?.counterpartyRisk || this.counterpartyRisk[q.venueId] || 0.001\<close>.
\<close>

definition quoteCounterpartyRisk :: "OTCQuote \<Rightarrow> maybeNumber" where
  "quoteCounterpartyRisk q =
     (case truthy (map_option counterpartyRisk (settlementMeta q)) of
        Some r \<Rightarrow> Some r
      | None \<Rightarrow> lookupOr (counterpartyRiskTable (venueId q)) 0.001)"

text \<open>
  \<open>calculateTimePenalty\<close>; the settlement days may be \<open>-Infinity\<close>, which is \<open>\<le> 0\<close>.
\<close>

definition calculateTimePenalty :: "number \<Rightarrow> number option \<Rightarrow> number \<Rightarrow> number" where
  "calculateTimePenalty quotedAmount days dailyVolatility =
     (case days of
        None \<Rightarrow> 0
      | Some d \<Rightarrow> if d \<le> 0 then 0
                  else let riskFactor = 1 in quotedAmount * dailyVolatility * sqrt d * riskFactor)"

text \<open>
  \<open>getAverageCounterpartyRisk\<close>: \<open>risks.reduce((a, b) => a + b, 0) / risks.length\<close>. The
  sum is a number when every risk is one; with a risk that is not a number the \<open>+\<close> joins
  texts and the division gives \<open>NaN\<close>.
\<close>

fun sumRisks :: "maybeNumber \<Rightarrow> maybeNumber list \<Rightarrow> maybeNumber" where
  "sumRisks a [] = a"
| "sumRisks a (b # rest) =
     sumRisks (case (a, b) of (Some x, Some y) \<Rightarrow> Some (x + y) | _ \<Rightarrow> None) rest"

definition getAverageCounterpartyRisk :: "OTCQuote list \<Rightarrow> maybeNumber" where
  "getAverageCounterpartyRisk quotes =
     (if length quotes = 0 then Some 0.001
      else let risks = map quoteCounterpartyRisk quotes
           in map_option (\<lambda>total. total / real (length risks)) (sumRisks (Some 0) risks))"

definition getVolatilityForRoute :: "RouteResult \<Rightarrow> number" where
  "getVolatilityForRoute r =
     (if length (steps r) = 0 then 0.005
      else let from = stepFromToken (steps r ! 0);
               to = stepToToken (steps r ! (length (steps r) - 1));
               pair = from @ ''/'' @ to
           in (case truthy (volatilityParams pair) of Some v \<Rightarrow> v | None \<Rightarrow> 0.005))"

text \<open>
  \<open>calculateNetOutput\<close>; \<open>Math.max(0, x)\<close> of a value that is not a number is not a
  number.
\<close>

definition calculateNetOutput :: "number \<Rightarrow> RouteResult \<Rightarrow> OTCQuote list \<Rightarrow> maybeNumber" where
  "calculateNetOutput quotedOutput r quotes =
     (let maxSettlementDays = jsMax (map quoteSettlementDays quotes);
          avgCounterpartyRisk = getAverageCounterpartyRisk quotes;
          volatility = getVolatilityForRoute r;
          timePenalty = calculateTimePenalty quotedOutput maxSettlementDays volatility
      in case avgCounterpartyRisk of
           Some avg \<Rightarrow>
             let counterpartyDiscount = quotedOutput * avg;
                 netOutput = quotedOutput - timePenalty - counterpartyDiscount
             in Some (max 0 netOutput)
         | None \<Rightarrow> None)"

text \<open>
  \<open>getScoringMetadata\<close>; here the maximum is \<open>Math.max(...days, 0)\<close>, which is never
  \<open>-Infinity\<close>. The counterparty risk and the confidence computed from it are not numbers
  when the average risk is not one.
\<close>

definition getScoringMetadata :: "RouteResult \<Rightarrow> OTCQuote list \<Rightarrow> ScoringMeta" where
  "getScoringMetadata r quotes =
     (let maxSettlementDays = foldr max (map quoteSettlementDays quotes) 0;
          avgCounterpartyRisk = getAverageCounterpartyRisk quotes;
          volatility = getVolatilityForRoute r;
          tp = calculateTimePenalty (totalOut r) (Some maxSettlementDays) volatility;
          conf = map_option
                   (\<lambda>avg. max 0 (min 1 (1 - maxSettlementDays * 0.1 - avg * 10)))
                   avgCounterpartyRisk
      in \<lparr>smSettlementDays = maxSettlementDays,
          smCounterpartyRisk = avgCounterpartyRisk,
          timePenalty = tp,
          smConfidence = map_option (max 0.5) conf\<rparr>)"


section \<open>Controller: the quotes of a route\<close>

text \<open>
  \<open>RoutingController.getQuotesForRoute\<close>: for every step with non-empty tokens and venue,
  read one key and keep the value when it is present and parses.
\<close>

definition routeQuoteKey :: "RouteStep \<Rightarrow> string" where
  "routeQuoteKey step =
     (if startsWith (stepVenueId step) ''dex:''
      then ''routing:edge:solana:'' @ stepFromToken step @ '':'' @ stepToToken step @ '':''
             @ stepVenueId step
      else ''quote:otc:'' @ stepFromToken step @ '':'' @ stepToToken step @ '':''
             @ stepVenueId step)"

definition getQuotesForRoute :: "store \<Rightarrow> RouteResult \<Rightarrow> OTCQuote list" where
  "getQuotesForRoute s r =
     (if length (steps r) = 0 then []
      else List.map_filter (\<lambda>step.
             if stepFromToken step = [] \<or> stepToToken step = [] \<or> stepVenueId step = []
             then None
             else parseQuote (redis_get s (routeQuoteKey step)))
           (steps r))"

section \<open>Errors\<close>

text \<open>
  A thrown exception is a value: \<open>NotFoundException\<close> with its message, or any other error
  (a value that does not parse).
\<close>

datatype error = NotFoundException string | OtherError string

definition errorMessage :: "error \<Rightarrow> string" where
  "errorMessage e = (case e of NotFoundException m \<Rightarrow> m | OtherError m \<Rightarrow> m)"

section \<open>Quote lifecycle\<close>

text \<open>
  \<open>QuoteLifecycleService\<close>. The clock \<open>Date.now()\<close> is the argument \<open>now\<close>, a fresh
  \<open>uuidv4()\<close> the argument \<open>uuid\<close>; the clock readings of one call are one instant.
\<close>

definition PROVISIONAL_TTL_SEC :: number where "PROVISIONAL_TTL_SEC = 15"
definition RESERVED_TTL_SEC :: number where "RESERVED_TTL_SEC = 300"

definition storeProvisionalQuote ::
  "store \<Rightarrow> number \<Rightarrow> string \<Rightarrow> RouteResult option \<Rightarrow> number \<Rightarrow> number \<Rightarrow> number \<Rightarrow> number
     \<Rightarrow> ScoringMeta \<Rightarrow> QuoteType \<Rightarrow> ProvisionalQuote \<times> store" where
  "storeProvisionalQuote s now uuid r ain aout net fee meta ty =
     (let qid = ''quote:'' @ uuid;
          quote = \<lparr>quoteId = qid, route = r, pqAmountIn = ain, pqAmountOut = aout,
                   netAmountOut = net, pqFeeBps = fee,
                   expiryTs = now + PROVISIONAL_TTL_SEC * 1000, createdTs = now,
                   scoringMeta = meta, quoteType = ty\<rparr>
      in (quote, redis_set s (provisionalQuoteKey qid) (ProvisionalEntry quote)))"

definition getProvisionalQuote :: "store \<Rightarrow> number \<Rightarrow> string \<Rightarrow> ProvisionalQuote option" where
  "getProvisionalQuote s now qid =
     (case redis_get s (provisionalQuoteKey qid) of
        Some (ProvisionalEntry quote) \<Rightarrow> if now \<ge> expiryTs quote then None else Some quote
      | _ \<Rightarrow> None)"

definition reserveQuote ::
  "store \<Rightarrow> number \<Rightarrow> string \<Rightarrow> string \<Rightarrow> string \<Rightarrow> OtcReservationMeta option
     \<Rightarrow> error + (ReservedQuote \<times> store)" where
  "reserveQuote s now uuid qid client meta =
     (case getProvisionalQuote s now qid of
        None \<Rightarrow> Inl (NotFoundException (''Provisional quote '' @ qid @ '' not found or expired''))
      | Some provisional \<Rightarrow>
          let reserved = ProvisionalQuote.extend provisional
                (ReservedQuote.fields (''reservation:'' @ uuid) client
                   (now + RESERVED_TTL_SEC * 1000) meta);
              s1 = redis_set s (reservedQuoteKey qid) (ReservedEntry reserved);
              s2 = redis_del s1 (provisionalQuoteKey qid)
          in Inr (reserved, s2))"

definition getReservedQuote :: "store \<Rightarrow> number \<Rightarrow> string \<Rightarrow> ReservedQuote option \<times> store" where
  "getReservedQuote s now qid =
     (case redis_get s (reservedQuoteKey qid) of
        Some (ReservedEntry quote) \<Rightarrow>
          if now \<ge> reservedUntilTs quote then (None, redis_del s (reservedQuoteKey qid))
          else (Some quote, s)
      | _ \<Rightarrow> (None, s))"

section \<open>Deposits\<close>

text \<open>\<open>DepositService\<close>.\<close>

definition getPaymentMethod :: "string \<Rightarrow> string" where
  "getPaymentMethod tok =
     (if tok = ''BRL'' then ''PIX''
      else if tok = ''MXN'' then ''SPEI''
      else if tok = ''NGN'' then ''bank_transfer''
      else if tok = ''USD'' then ''bank_transfer''
      else if tok = ''EUR'' then ''bank_transfer''
      else ''bank_transfer'')"

definition getAccountDetails :: "string \<Rightarrow> AccountDetails" where
  "getAccountDetails m =
     (if m = ''PIX''
      then \<lparr>bankName = None, accountNumber = None, pixKey = Some ''mock-pix-key@example.com'',
            iban = None, routingNumber = None\<rparr>
      else if m = ''SPEI''
      then \<lparr>bankName = Some ''Mock Bank'', accountNumber = Some ''1234567890'', pixKey = None,
            iban = None, routingNumber = Some ''0123456789''\<rparr>
      else \<lparr>bankName = Some ''Mock Bank'', accountNumber = Some ''1234567890'', pixKey = None,
            iban = Some ''GB82WEST12345698765432'', routingNumber = None\<rparr>)"

definition calculatePixCrc :: "string \<Rightarrow> string" where
  "calculatePixCrc d = ''ABCD''"

text \<open>The QR code text before the checksum, as the template of \<open>generatePixQrCode\<close> has it.\<close>

definition pixPayload :: string where
  "pixPayload = ''00020126580014BR.GOV.BCB.PIX0136mock-pix-key@example.com''
     @ ''5204000053039865802BR5913MOCK MERCHANT6009SAO PAULO62070503***6304''"

definition generatePixQrCode :: "string \<Rightarrow> number \<Rightarrow> string" where
  "generatePixQrCode paymentRef amt = pixPayload @ calculatePixCrc ''mock''"

text \<open>
  The checksum in the words of the specification, against which the source is compared:
  CRC16-CCITT with the parameters of the EMV QR code format (polynomial \<open>0x1021\<close>, initial
  value \<open>0xFFFF\<close>, most significant bit first, no final xor), written as four upper-case
  hexadecimal digits. The source has no such computation: \<open>calculatePixCrc\<close> above is all
  it does.
\<close>

definition crcShift :: "16 word \<Rightarrow> 16 word" where
  "crcShift crc = (if bit crc 15 then push_bit 1 crc XOR 0x1021 else push_bit 1 crc)"

definition crcByte :: "16 word \<Rightarrow> char \<Rightarrow> 16 word" where
  "crcByte crc c = (crcShift ^^ 8) (crc XOR push_bit 8 (of_nat (of_char c)))"

definition crc16ccitt :: "string \<Rightarrow> 16 word" where
  "crc16ccitt d = foldl crcByte 0xFFFF d"

definition hexDigit :: "nat \<Rightarrow> char" where
  "hexDigit n = (''0123456789ABCDEF'' ! (n mod 16))"

definition hex4 :: "16 word \<Rightarrow> string" where
  "hex4 w = map (\<lambda>k. hexDigit (unat (drop_bit k w))) [12, 8, 4, 0]"

definition DEPOSIT_TTL_SEC :: number where "DEPOSIT_TTL_SEC = 3600"

text \<open>
  \<open>createDepositInstructions\<close>; \<open>reservedQuote.route?.steps[0]?.fromToken || ""\<close> is the
  source token of the first step, or the empty string.
\<close>

definition firstFromToken :: "RouteResult option \<Rightarrow> string" where
  "firstFromToken r =
     (case r of None \<Rightarrow> [] | Some rt \<Rightarrow> (case steps rt of [] \<Rightarrow> [] | st # _ \<Rightarrow> stepFromToken st))"

definition createDepositInstructions ::
  "store \<Rightarrow> string \<Rightarrow> string \<Rightarrow> string \<Rightarrow> ReservedQuote \<Rightarrow> DepositInstructions \<times> store" where
  "createDepositInstructions s uuid qid client reservedQuote =
     (let paymentRef = ''r'' @ take 8 (reservationId reservedQuote) @ ''-'' @ take 8 client;
          m = getPaymentMethod (firstFromToken (route reservedQuote));
          instructions =
            \<lparr>payMethod = m,
             accountDetails = getAccountDetails m,
             amount = pqAmountIn reservedQuote,
             paymentReference = paymentRef,
             qrCodeData = (if m = ''PIX''
                           then Some (generatePixQrCode paymentRef (pqAmountIn reservedQuote))
                           else None),
             depositExpiryTs = reservedUntilTs reservedQuote\<rparr>;
          did = ''deposit:'' @ uuid;
          deposit =
            \<lparr>depositId = did, drQuoteId = qid, clientId = client,
             amountExpected = pqAmountIn reservedQuote, amountReceived = None,
             drInstructions = instructions, drStatus = PENDING, receivedAt = None,
             bankTxId = None, drPaymentReference = paymentRef\<rparr>;
          s1 = redis_set s (depositKey did) (DepositEntry deposit);
          s2 = redis_set s1 (''deposit:ref:'' @ paymentRef) (StringEntry did)
      in (instructions, s2))"

text \<open>
  \<open>confirmDeposit\<close>. The third component of a successful result lists the warnings logged
  by the call (the amounts in the message are left out).
\<close>

definition confirmDeposit ::
  "store \<Rightarrow> number \<Rightarrow> string \<Rightarrow> number \<Rightarrow> string option
     \<Rightarrow> error + (DepositRecord \<times> store \<times> string list)" where
  "confirmDeposit s now ref received tx =
     (case redis_get s (''deposit:ref:'' @ ref) of
        Some (StringEntry depositIdRaw) \<Rightarrow>
          if depositIdRaw = []
          then Inl (NotFoundException (''Deposit with reference '' @ ref @ '' not found''))
          else (case redis_get s (depositKey depositIdRaw) of
                  None \<Rightarrow> Inl (NotFoundException (''Deposit '' @ depositIdRaw @ '' not found''))
                | Some (DepositEntry deposit) \<Rightarrow>
                    let tolerance = amountExpected deposit * 0.001;
                        warnings = (if \<bar>received - amountExpected deposit\<bar> > tolerance
                                    then [''Deposit amount mismatch''] else []);
                        updated = deposit\<lparr>amountReceived := Some received,
                                          drStatus := CONFIRMED,
                                          receivedAt := Some now,
                                          bankTxId := tx\<rparr>;
                        s1 = redis_set s (depositKey (depositId deposit)) (DepositEntry updated)
                    in Inr (updated, s1, warnings)
                | Some _ \<Rightarrow> Inl (OtherError ''deposit record does not parse''))
      | _ \<Rightarrow> Inl (NotFoundException (''Deposit with reference '' @ ref @ '' not found'')))"

section \<open>Execution records\<close>

text \<open>
  \<open>ExecutionService\<close>. A partial update \<open>{...existing, ...updates}\<close> is a function on the
  record. \<open>updateExecution\<close> reads the key of its argument and saves under the key of the
  \<open>executionId\<close> held by the record.
\<close>

definition getExecution :: "store \<Rightarrow> string \<Rightarrow> ExecutionRecord option" where
  "getExecution s eid =
     (case redis_get s (''exec:'' @ eid) of Some (ExecutionEntry e) \<Rightarrow> Some e | _ \<Rightarrow> None)"

definition saveExecution :: "store \<Rightarrow> ExecutionRecord \<Rightarrow> store" where
  "saveExecution s record = redis_set s (''exec:'' @ executionId record) (ExecutionEntry record)"

definition updateExecution ::
  "store \<Rightarrow> string \<Rightarrow> (ExecutionRecord \<Rightarrow> ExecutionRecord) \<Rightarrow> error + (ExecutionRecord \<times> store)" where
  "updateExecution s eid updates =
     (case getExecution s eid of
        None \<Rightarrow> Inl (NotFoundException (''Execution '' @ eid @ '' not found''))
      | Some existing \<Rightarrow> let updated = updates existing in Inr (updated, saveExecution s updated))"

definition completeExecution ::
  "store \<Rightarrow> number \<Rightarrow> string \<Rightarrow> string list \<Rightarrow> error + (ExecutionRecord \<times> store)" where
  "completeExecution s now eid hashes =
     updateExecution s eid
       (\<lambda>e. e\<lparr>status := COMPLETED, transactionHashes := Some hashes,
              completedAt := Some now, currentStep := None\<rparr>)"

definition failExecution ::
  "store \<Rightarrow> number \<Rightarrow> string \<Rightarrow> string \<Rightarrow> bool \<Rightarrow> error + (ExecutionRecord option \<times> store)" where
  "failExecution s now eid err useFallback =
     (case getExecution s eid of
        None \<Rightarrow> Inr (None, s)
      | Some exec \<Rightarrow>
          (case (if useFallback then fallbackRoute exec else None) of
             Some fb \<Rightarrow>
               map_sum id (\<lambda>(e, s'). (Some e, s'))
                 (updateExecution s eid
                    (\<lambda>e. e\<lparr>exRoute := fb, status := EXECUTING, currentStep := Some 0,
                           transactionHashes := Some [], error := None\<rparr>))
           | None \<Rightarrow>
               map_sum id (\<lambda>(e, s'). (Some e, s'))
                 (updateExecution s eid
                    (\<lambda>e. e\<lparr>status := FAILED, error := Some err, completedAt := Some now\<rparr>))))"

section \<open>Execution driver\<close>

text \<open>
  The loop of \<open>RoutingController.executeRouteAsync\<close> over the step indices. The awaited
  work of step \<open>i\<close> either throws or yields the transaction hash: \<open>step i\<close> is \<open>Inl\<close> the
  error message or \<open>Inr\<close> the hash. \<open>hashes\<close> is the field \<open>transactionHashes\<close> of the
  local object \<open>execution\<close>: \<open>execution.transactionHashes || []\<close> is that array, which the
  push extends, or a new array when the field is undefined, which then stays undefined.
  An exception leaves the loop with its message and the store as written so far.
\<close>

fun runSteps ::
  "(nat \<Rightarrow> string + string) \<Rightarrow> string \<Rightarrow> nat list \<Rightarrow> string list option \<Rightarrow> store
     \<Rightarrow> (string \<times> store) + (string list option \<times> store)" where
  "runSteps step eid [] hashes s = Inr (hashes, s)"
| "runSteps step eid (i # rest) hashes s =
     (case updateExecution s eid (\<lambda>e. e\<lparr>currentStep := Some i\<rparr>) of
        Inl e \<Rightarrow> Inl (errorMessage e, s)
      | Inr (_, s1) \<Rightarrow>
          (case step i of
             Inl msg \<Rightarrow> Inl (msg, s1)
           | Inr txHash \<Rightarrow>
               let currentHashes = (case hashes of Some h \<Rightarrow> h | None \<Rightarrow> []) @ [txHash];
                   hashes' = (case hashes of Some _ \<Rightarrow> Some currentHashes | None \<Rightarrow> None)
               in (case updateExecution s1 eid (\<lambda>e. e\<lparr>transactionHashes := Some currentHashes\<rparr>) of
                     Inl e \<Rightarrow> Inl (errorMessage e, s1)
                   | Inr (_, s2) \<Rightarrow> runSteps step eid rest hashes' s2)))"

text \<open>The \<open>try\<close> block: the loop, then \<open>completeExecution\<close>.\<close>

definition tryExecute ::
  "(nat \<Rightarrow> string + string) \<Rightarrow> number \<Rightarrow> string \<Rightarrow> ExecutionRecord \<Rightarrow> store
     \<Rightarrow> (string \<times> store) + store" where
  "tryExecute step now eid execution s =
     (case runSteps step eid [0 ..< length (steps (exRoute execution))]
             (transactionHashes execution) s of
        Inl (msg, s1) \<Rightarrow> Inl (msg, s1)
      | Inr (hashes, s1) \<Rightarrow>
          (case completeExecution s1 now eid (case hashes of Some h \<Rightarrow> h | None \<Rightarrow> []) of
             Inl e \<Rightarrow> Inl (errorMessage e, s1)
           | Inr (_, s2) \<Rightarrow> Inr s2))"

text \<open>
  \<open>executeRouteAsync\<close>. \<open>outcome n\<close> gives the step outcomes of the \<open>n\<close>-th run of the
  method (the first run is run 0, every retry is the next one). The recursion of the source
  has no bound, so the model takes fuel, one unit per run, and returns \<open>None\<close> when the fuel
  does not suffice; otherwise it returns the final store and the warnings logged, one
  \<open>attempting fallback\<close> warning for every switch to the fallback route.
\<close>

fun executeRouteAsync ::
  "nat \<Rightarrow> (nat \<Rightarrow> nat \<Rightarrow> string + string) \<Rightarrow> nat \<Rightarrow> number \<Rightarrow> store \<Rightarrow> string
     \<Rightarrow> (store \<times> string list) option" where
  "executeRouteAsync 0 outcome n now s eid = None"
| "executeRouteAsync (Suc fuel) outcome n now s eid =
     (case getExecution s eid of
        None \<Rightarrow> Some (s, [])
      | Some execution \<Rightarrow>
          (case tryExecute (outcome n) now eid execution s of
             Inr s' \<Rightarrow> Some (s', [])
           | Inl (msg, s1) \<Rightarrow>
               (case Option.bind (getExecution s1 eid) fallbackRoute of
                  Some _ \<Rightarrow>
                    (case failExecution s1 now eid msg True of
                       Inl _ \<Rightarrow> Some (s1, [''Primary route failed, attempting fallback''])
                     | Inr (_, s2) \<Rightarrow>
                         map_option
                           (\<lambda>(s3, logs). (s3, ''Primary route failed, attempting fallback'' # logs))
                           (executeRouteAsync fuel outcome (Suc n) now s2 eid))
                | None \<Rightarrow>
                    (case failExecution s1 now eid msg False of
                       Inl _ \<Rightarrow> Some (s1, [])
                     | Inr (_, s2) \<Rightarrow> Some (s2, [])))))"

section \<open>Deposit webhook\<close>

record DepositWebhookRequest =
  reqPaymentReference :: string
  reqAmountReceived :: number
  reqBankTxId :: "string option"
  reqSource :: "string option"

record WebhookResponse =
  success :: bool
  respDepositId :: "string option"
  respExecutionId :: "string option"

text \<open>\<open>RoutingController.findExecutionByQuoteId\<close>.\<close>

definition findExecutionByQuoteId :: "store \<Rightarrow> string \<Rightarrow> ExecutionRecord list" where
  "findExecutionByQuoteId s qid =
     (case redis_get s (''execution:quote:'' @ qid) of
        Some (StringEntry eid) \<Rightarrow>
          (if eid = [] then []
           else (case getExecution s eid of Some exec \<Rightarrow> [exec] | None \<Rightarrow> []))
      | _ \<Rightarrow> [])"

text \<open>
  \<open>RoutingController.depositWebhook\<close>, up to its return: the response and the store. The
  call starts \<open>executeRouteAsync\<close> for \<open>respExecutionId\<close> without awaiting it exactly when
  the response has \<open>success = true\<close>; the driver then runs on the store returned here.
\<close>

definition depositWebhook ::
  "store \<Rightarrow> number \<Rightarrow> DepositWebhookRequest \<Rightarrow> WebhookResponse \<times> store" where
  "depositWebhook s now request =
     (let failed = \<lparr>success = False, respDepositId = None, respExecutionId = None\<rparr>
      in case confirmDeposit s now (reqPaymentReference request) (reqAmountReceived request)
                (reqBankTxId request) of
           Inl _ \<Rightarrow> (failed, s)
         | Inr (deposit, s1, _) \<Rightarrow>
             (case getReservedQuote s1 now (drQuoteId deposit) of
                (None, s2) \<Rightarrow> (failed, s2)
              | (Some reserved, s2) \<Rightarrow>
                  (case findExecutionByQuoteId s2 (drQuoteId deposit) of
                     [] \<Rightarrow> (failed, s2)
                   | execution # _ \<Rightarrow>
                       (case updateExecution s2 (executionId execution)
                               (\<lambda>e. e\<lparr>status := EXECUTING\<rparr>) of
                          Inl _ \<Rightarrow> (failed, s2)
                        | Inr (_, s3) \<Rightarrow>
                            (\<lparr>success = True,
                              respDepositId = Some (depositId deposit),
                              respExecutionId = Some (executionId execution)\<rparr>, s3)))))"

section \<open>Notions used by the properties\<close>

text \<open>
  The settlement days of a quote in the words of the specification: those of its
  \<open>settlementMeta\<close>, and 0 for a quote without one.
\<close>

definition specSettlementDays :: "OTCQuote \<Rightarrow> number" where
  "specSettlementDays q = (case settlementMeta q of Some m \<Rightarrow> settlementDays m | None \<Rightarrow> 0)"

text \<open>
  The counterparty risk of a quote in the words of the claim: the risk of its
  \<open>settlementMeta\<close>, with the default of the venue, or 0.001, for a quote that has none.
\<close>

definition specVenueRisk :: "string \<Rightarrow> number" where
  "specVenueRisk venue =
     (if venue = ''otc:brl-eur:provider1'' then 0.001
      else if venue = ''otc:mxn-usd:provider1'' then 0.001
      else if venue = ''otc:ngn-eur:provider1'' then 0.002
      else if venue = ''otc:stablecoin:provider1'' then 0.0005
      else 0.001)"

definition claimCounterpartyRisk :: "OTCQuote \<Rightarrow> number" where
  "claimCounterpartyRisk q =
     (case settlementMeta q of Some m \<Rightarrow> counterpartyRisk m | None \<Rightarrow> specVenueRisk (venueId q))"

text \<open>
  The counterparty risk of a quote as the code takes it: the default also replaces a risk
  of zero.
\<close>

definition effectiveCounterpartyRisk :: "OTCQuote \<Rightarrow> number" where
  "effectiveCounterpartyRisk q =
     (case settlementMeta q of
        Some m \<Rightarrow> if counterpartyRisk m = 0 then specVenueRisk (venueId q) else counterpartyRisk m
      | None \<Rightarrow> specVenueRisk (venueId q))"

text \<open>
  The daily volatility of a route in the words of the specification: the entry of the
  volatility table for the pair of the route's source and destination tokens, or 0.005.
\<close>

definition specDailyVol :: "RouteResult \<Rightarrow> number" where
  "specDailyVol r =
     (case steps r of
        [] \<Rightarrow> 0.005
      | first # _ \<Rightarrow>
          (let from = stepFromToken first; to = stepToToken (last (steps r))
           in if from = ''BRL'' \<and> to = ''EUR'' then 0.005
              else if from = ''MXN'' \<and> to = ''USD'' then 0.004
              else if from = ''NGN'' \<and> to = ''EUR'' then 0.008
              else 0.005))"



text \<open>
  The invariant of a store written by \<open>cacheQuote\<close> only: every entry is a quote, stored
  under the key that \<open>cacheQuote\<close> derives from it.
\<close>

definition cacheInv :: "store \<Rightarrow> bool" where
  "cacheInv s =
     (\<forall>k v. map_of s k = Some v \<longrightarrow> (\<exists>q. v = QuoteEntry q \<and> k = quoteCacheKey q))"

text \<open>
  Every execution record is stored under the key of its own \<open>executionId\<close>, as
  \<open>saveExecution\<close> writes it.
\<close>

definition execConsistent :: "store \<Rightarrow> bool" where
  "execConsistent s = (\<forall>eid e. getExecution s eid = Some e \<longrightarrow> executionId e = eid)"

section \<open>Example states\<close>

text \<open>
  Three OTC quotes in the shape the mock providers produce, and the cache that
  \<open>cacheQuotes\<close> builds from them: BRL to EUR directly, and through USDC.
\<close>

definition quoteBrlUsdc :: OTCQuote where
  "quoteBrlUsdc =
     \<lparr>venueId = ''otc:brl-eur:provider1'', fromToken = ''BRL'', toToken = ''USDC'',
      amountIn = 10000, amountOut = 2000, maxAmountIn = None, feeBps = Some 40,
      expiry = 30000, depositAddress = None, lastUpdated = 0,
      settlementMeta = Some \<lparr>settlementDays = 1, counterpartyRisk = 0.001,
                               supportsReservation = True, paymentMethods = Some [''PIX'']\<rparr>\<rparr>"

definition quoteUsdcEur :: OTCQuote where
  "quoteUsdcEur =
     \<lparr>venueId = ''otc:stablecoin:provider1'', fromToken = ''USDC'', toToken = ''EUR'',
      amountIn = 2000, amountOut = 1840, maxAmountIn = None, feeBps = Some 30,
      expiry = 30000, depositAddress = None, lastUpdated = 0, settlementMeta = None\<rparr>"

definition quoteBrlEur :: OTCQuote where
  "quoteBrlEur =
     \<lparr>venueId = ''otc:brl-eur:provider1'', fromToken = ''BRL'', toToken = ''EUR'',
      amountIn = 10000, amountOut = 1800, maxAmountIn = None, feeBps = Some 50,
      expiry = 30000, depositAddress = None, lastUpdated = 0, settlementMeta = None\<rparr>"

definition exampleCache :: store where
  "exampleCache = cacheQuotes [] [quoteBrlUsdc, quoteUsdcEur, quoteBrlEur]"

text \<open>The two routes from BRL to EUR over that cache for an input of 10000.\<close>

definition exampleOneHop :: RouteResult where
  "exampleOneHop =
     \<lparr>steps = [toRouteStep quoteBrlEur 10000 1791],
      totalIn = 10000, totalOut = 1791, effectiveRate = 1791 / 10000,
      totalFeesBps = 50, confidence = 1, timestamp = 0\<rparr>"

definition exampleTwoHop :: RouteResult where
  "exampleTwoHop =
     \<lparr>steps = [toRouteStep quoteBrlUsdc 10000 1992,
               toRouteStep quoteUsdcEur 1992 (5709819 / 3125)],
      totalIn = 10000, totalOut = 5709819 / 3125, effectiveRate = 5709819 / 31250000,
      totalFeesBps = 70, confidence = 1, timestamp = 0\<rparr>"

text \<open>
  Another call of the service starts while a call waits for the legs of its first pair of
  intermediaries in the 3-hop loop.
\<close>

definition startsDuringThreeHop :: interference where
  "startsDuringThreeHop k = (if k = 2 then otherCallStarts else (\<lambda>b. b))"

text \<open>
  A DEX quote in the shape \<open>DexProvider\<close> produces, an OTC quote from EURC to EUR, the
  cache that \<open>cacheQuotes\<close> builds with them, and the route from BRL to EUR through USDC
  and EURC over that cache.
\<close>

definition quoteUsdcEurc :: OTCQuote where
  "quoteUsdcEurc =
     \<lparr>venueId = ''dex:jupiter'', fromToken = ''USDC'', toToken = ''EURC'',
      amountIn = 1000, amountOut = 915, maxAmountIn = Some 1000000, feeBps = Some 20,
      expiry = 5000, depositAddress = None, lastUpdated = 0,
      settlementMeta = Some \<lparr>settlementDays = 0.01, counterpartyRisk = 0.0001,
                               supportsReservation = False,
                               paymentMethods = Some [''on_chain'']\<rparr>\<rparr>"

definition quoteEurcEur :: OTCQuote where
  "quoteEurcEur =
     \<lparr>venueId = ''otc:stablecoin:provider1'', fromToken = ''EURC'', toToken = ''EUR'',
      amountIn = 1000, amountOut = 1000, maxAmountIn = None, feeBps = Some 20,
      expiry = 30000, depositAddress = None, lastUpdated = 0, settlementMeta = None\<rparr>"

definition exampleMixedCache :: store where
  "exampleMixedCache = cacheQuotes [] [quoteBrlUsdc, quoteUsdcEurc, quoteEurcEur]"

definition exampleMixedRoute :: RouteResult where
  "exampleMixedRoute =
     \<lparr>steps = [toRouteStep quoteBrlUsdc 10000 1992,
               toRouteStep quoteUsdcEurc 1992 (22737933 / 12500),
               toRouteStep quoteEurcEur (22737933 / 12500) (11346228567 / 6250000)],
      totalIn = 10000, totalOut = 11346228567 / 6250000,
      effectiveRate = 11346228567 / 62500000000,
      totalFeesBps = 80, confidence = 1, timestamp = 0\<rparr>"

text \<open>
  A quote from NGN to EUR whose counterparty risk is zero, one whose risk is its own, and
  the one-step route over the first.
\<close>

definition quoteNgnEurZero :: OTCQuote where
  "quoteNgnEurZero =
     \<lparr>venueId = ''otc:ngn-eur:provider1'', fromToken = ''NGN'', toToken = ''EUR'',
      amountIn = 1000000, amountOut = 1000, maxAmountIn = None, feeBps = None,
      expiry = 30000, depositAddress = None, lastUpdated = 0,
      settlementMeta = Some \<lparr>settlementDays = 0, counterpartyRisk = 0,
                               supportsReservation = True, paymentMethods = None\<rparr>\<rparr>"

definition quoteNgnEurOwn :: OTCQuote where
  "quoteNgnEurOwn =
     \<lparr>venueId = ''otc:ngn-eur:provider1'', fromToken = ''NGN'', toToken = ''EUR'',
      amountIn = 1000000, amountOut = 1000, maxAmountIn = None, feeBps = None,
      expiry = 30000, depositAddress = None, lastUpdated = 0,
      settlementMeta = Some \<lparr>settlementDays = 4, counterpartyRisk = 0.004,
                               supportsReservation = True, paymentMethods = None\<rparr>\<rparr>"

definition exampleNgnRoute :: RouteResult where
  "exampleNgnRoute =
     \<lparr>steps = [toRouteStep quoteNgnEurZero 1000000 1000],
      totalIn = 1000000, totalOut = 1000, effectiveRate = 1 / 1000,
      totalFeesBps = 0, confidence = 1, timestamp = 0\<rparr>"

text \<open>
  A provisional quote for the two-hop route, and a deposit record with its reference index
  as \<open>createDepositInstructions\<close> writes them for a PIX deposit.
\<close>

definition exampleQuoted :: "ProvisionalQuote \<times> store" where
  "exampleQuoted =
     storeProvisionalQuote exampleCache 0 ''test-123'' (Some exampleTwoHop) 10000
       (totalOut exampleTwoHop) (totalOut exampleTwoHop * 0.999)
       70 (getScoringMetadata exampleTwoHop []) OTC"

definition exampleDeposit :: DepositRecord where
  "exampleDeposit =
     \<lparr>depositId = ''deposit:test-111'', drQuoteId = ''quote:test-123'',
      clientId = ''client-test-123'', amountExpected = 10000, amountReceived = None,
      drInstructions =
        \<lparr>payMethod = ''PIX'', accountDetails = getAccountDetails ''PIX'', amount = 10000,
         paymentReference = ''rreservat-client-t'',
         qrCodeData = Some (generatePixQrCode ''rreservat-client-t'' 10000),
         depositExpiryTs = 300000\<rparr>,
      drStatus = PENDING, receivedAt = None, bankTxId = None,
      drPaymentReference = ''rreservat-client-t''\<rparr>"

definition exampleDepositStore :: store where
  "exampleDepositStore =
     [(''deposit:deposit:test-111'', DepositEntry exampleDeposit),
      (''deposit:ref:rreservat-client-t'', StringEntry ''deposit:test-111'')]"

text \<open>
  An execution record in status \<open>EXECUTING\<close> with a fallback route, as \<open>createExecution\<close>
  leaves it for a route of DEX steps, and two environments for the driver: one whose steps
  fail in the first two runs, one whose steps always fail.
\<close>

definition dexPrimary :: RouteResult where
  "dexPrimary =
     \<lparr>steps = [\<lparr>stepFromToken = ''USDC'', stepToToken = ''EURC'', stepVenueId = ''dex:jupiter'',
                 chainId = 101, stepAmountIn = 1000, stepAmountOut = 91317 / 100,
                 stepFeeBps = 20, estimatedDurationMs = 30000\<rparr>],
      totalIn = 1000, totalOut = 91317 / 100, effectiveRate = 91317 / 100000,
      totalFeesBps = 20, confidence = 1, timestamp = 0\<rparr>"

definition dexFallback :: RouteResult where
  "dexFallback =
     \<lparr>steps = [\<lparr>stepFromToken = ''USDC'', stepToToken = ''USDT'', stepVenueId = ''dex:jupiter'',
                 chainId = 101, stepAmountIn = 1000, stepAmountOut = 999,
                 stepFeeBps = 5, estimatedDurationMs = 30000\<rparr>,
               \<lparr>stepFromToken = ''USDT'', stepToToken = ''EURC'', stepVenueId = ''dex:jupiter'',
                 chainId = 101, stepAmountIn = 999, stepAmountOut = 911,
                 stepFeeBps = 20, estimatedDurationMs = 30000\<rparr>],
      totalIn = 1000, totalOut = 911, effectiveRate = 911 / 1000,
      totalFeesBps = 25, confidence = 1, timestamp = 0\<rparr>"

definition exampleFallbackExecution :: ExecutionRecord where
  "exampleFallbackExecution =
     \<lparr>executionId = ''exec:test-789'', exQuoteId = ''quote:test-123'', exRoute = dexPrimary,
      status = EXECUTING, approvalToken = None, transactionHashes = Some [],
      currentStep = Some 0, createdAt = 0, completedAt = None, error = None,
      fallbackRoute = Some dexFallback\<rparr>"

definition exampleFallbackStore :: store where
  "exampleFallbackStore =
     [(''exec:exec:test-789'', ExecutionEntry exampleFallbackExecution),
      (''execution:quote:quote:test-123'', StringEntry ''exec:test-789'')]"

definition failTwice :: "nat \<Rightarrow> nat \<Rightarrow> string + string" where
  "failTwice n i = (if n < 2 then Inl ''step failed'' else Inr ''0xabc'')"

definition alwaysFail :: "nat \<Rightarrow> nat \<Rightarrow> string + string" where
  "alwaysFail n i = Inl ''step failed''"

text \<open>
  The records that the test of the deposit webhook puts into the store: an execution
  awaiting the deposit, its index by quote, a pending deposit with its reference index,
  and the reserved quote.
\<close>

definition exampleReserved :: ReservedQuote where
  "exampleReserved =
     ProvisionalQuote.extend (fst exampleQuoted)
       (ReservedQuote.fields ''reservation:test-456'' ''client-test-123'' 300000 None)"

definition exampleExecution :: ExecutionRecord where
  "exampleExecution =
     \<lparr>executionId = ''exec:test-789'', exQuoteId = ''quote:test-123'', exRoute = exampleTwoHop,
      status = PENDING_APPROVAL, approvalToken = Some ''approval:test-999'',
      transactionHashes = Some [], currentStep = Some 0, createdAt = 0, completedAt = None,
      error = None, fallbackRoute = None\<rparr>"

definition exampleStoreWith :: "DepositRecord \<Rightarrow> ExecutionRecord \<Rightarrow> store" where
  "exampleStoreWith d e =
     [(''exec:exec:test-789'', ExecutionEntry e),
      (''execution:quote:quote:test-123'', StringEntry ''exec:test-789''),
      (''deposit:deposit:test-111'', DepositEntry d),
      (''deposit:ref:rreservat-client-t'', StringEntry ''deposit:test-111''),
      (''quote:reserved:quote:test-123'', ReservedEntry exampleReserved)]"

definition exampleRequest :: DepositWebhookRequest where
  "exampleRequest =
     \<lparr>reqPaymentReference = ''rreservat-client-t'', reqAmountReceived = 10000,
      reqBankTxId = Some ''pix-tx-123'', reqSource = Some ''PIX''\<rparr>"

definition exampleConfirmed :: "number \<Rightarrow> DepositRecord" where
  "exampleConfirmed t =
     exampleDeposit\<lparr>amountReceived := Some 10000, drStatus := CONFIRMED,
                    receivedAt := Some t, bankTxId := Some ''pix-tx-123''\<rparr>"

definition exampleCompleted :: ExecutionRecord where
  "exampleCompleted =
     exampleExecution\<lparr>status := COMPLETED, transactionHashes := Some [''0xabc'', ''0xabc''],
                      completedAt := Some 2000, currentStep := None\<rparr>"

definition allSucceed :: "nat \<Rightarrow> nat \<Rightarrow> string + string" where
  "allSucceed n i = Inr ''0xabc''"

definition exampleOk :: WebhookResponse where
  "exampleOk = \<lparr>success = True, respDepositId = Some ''deposit:test-111'',
                respExecutionId = Some ''exec:test-789''\<rparr>"

section \<open>Properties\<close>

subsection \<open>Evaluation of the example cache\<close>

lemma exampleCache_eq: "exampleCache =
  [(''otc:quotes:BRL:USDC:otc:brl-eur:provider1'', QuoteEntry quoteBrlUsdc),
   (''otc:quotes:USDC:EUR:otc:stablecoin:provider1'', QuoteEntry quoteUsdcEur),
   (''otc:quotes:BRL:EUR:otc:brl-eur:provider1'', QuoteEntry quoteBrlEur)]"
  by (simp add: exampleCache_def cacheQuotes_def cacheQuote_def quoteCacheKey_def startsWith_def
        otcQuoteKey_def redis_set_def quoteBrlUsdc_def quoteUsdcEur_def quoteBrlEur_def)

lemmas load_eval = loadQuotes_def scanKeys_def redis_get_def parseQuote_def otcQuoteKey_def

lemma load_BE: "loadQuotes exampleCache ''BRL'' ''EUR'' = [quoteBrlEur]"
  by (simp add: exampleCache_eq load_eval)

lemma load_BU: "loadQuotes exampleCache ''BRL'' ''USDC'' = [quoteBrlUsdc]"
  by (simp add: exampleCache_eq load_eval)

lemma load_UE: "loadQuotes exampleCache ''USDC'' ''EUR'' = [quoteUsdcEur]"
  by (simp add: exampleCache_eq load_eval)

lemma load_UE_otc: "loadQuotes exampleCache ''USDC'' ''EUR:otc'' = [quoteUsdcEur]"
  by (simp add: exampleCache_eq load_eval)

lemma load_UE_otc2: "loadQuotes exampleCache ''USDC'' ''USDT'' = []"
  "loadQuotes exampleCache ''USDT'' ''EUR:otc'' = []"
  by (simp_all add: exampleCache_eq load_eval)

lemma load_none:
  "loadQuotes exampleCache ''BRL'' ''USDT'' = []" "loadQuotes exampleCache ''USDT'' ''EUR'' = []"
  "loadQuotes exampleCache ''BRL'' ''EURC'' = []" "loadQuotes exampleCache ''EURC'' ''EUR'' = []"
  "loadQuotes exampleCache ''USDT'' ''USDC'' = []"
  by (simp_all add: exampleCache_eq load_eval)

lemmas route_eval = candidateRoutes_def twoHopCandidates_def threeHopCandidates_def
  oneHopCandidates_def twoHopMids_def threeHopMids_def commonIntermediaries_def
  twoHopRoutes_def threeHopRoutes_def oneHopRoutes_def legOutput_def exceedsMax_def
  computeOutput_def feeOrZero_def

lemmas example_loads = load_BE load_BU load_UE load_UE_otc load_UE_otc2 load_none


subsection \<open>A call that nothing interleaves with\<close>

lemma threeHopLoop_noInterference:
  "threeHopLoop noInterference k ls b = foldl updateBest b (concat ls)"
  by (induction ls arbitrary: k b) (simp_all add: noInterference_def)

lemma getBestRoute_noInterference:
  "bestRoute (getBestRoute noInterference s now ain from to intermediates minExpiryMs) =
     foldl updateBest None (candidateRoutes s now ain from to intermediates minExpiryMs)"
  by (simp add: getBestRoute_def Let_def candidateRoutes_def threeHopLoop_noInterference
        noInterference_def)


text \<open>
  C4. For a quote with \<open>amountIn = a0 > 0\<close>, \<open>amountOut = b0\<close>, optional fee \<open>f\<close> (0 when
  missing) and every input amount \<open>x > 0\<close>, the per-leg output is
  \<open>x * (b0 / a0) * (1 - f / 10000)\<close>.
\<close>

theorem computeOutput_formula:
  assumes "0 < amountIn quote" and "0 < x"
  shows "computeOutput x quote =
           x * (amountOut quote / amountIn quote) * (1 - feeOrZero quote / 10000)"
  using assms
  by (simp add: computeOutput_def feeOrZero_def Let_def algebra_simps split: option.splits)

theorem computeOutput_formula_witness:
  "computeOutput 1000
     \<lparr>venueId = ''otc:x'', fromToken = ''USDC'', toToken = ''EUR'', amountIn = 1000,
      amountOut = 920, maxAmountIn = None, feeBps = Some 30, expiry = 30000,
      depositAddress = None, lastUpdated = 0, settlementMeta = None\<rparr> = 91724 / 100"
  using computeOutput_formula [of
     "\<lparr>venueId = ''otc:x'', fromToken = ''USDC'', toToken = ''EUR'', amountIn = 1000,
      amountOut = 920, maxAmountIn = None, feeBps = Some 30, expiry = 30000,
      depositAddress = None, lastUpdated = 0, settlementMeta = None\<rparr>" 1000]
  by (simp add: feeOrZero_def)

subsection \<open>Ranking\<close>

lemma foldl_updateBest:
  "foldl updateBest b cs = Some r \<Longrightarrow>
     (\<forall>c \<in> set cs. totalOut c \<le> totalOut r) \<and>
     (\<forall>b'. b = Some b' \<longrightarrow> totalOut b' \<le> totalOut r) \<and>
     (r \<in> set cs \<or> b = Some r)"
proof (induction cs arbitrary: b)
  case Nil
  then show ?case by simp
next
  case (Cons c cs)
  from Cons.prems have "foldl updateBest (updateBest b c) cs = Some r" by simp
  from Cons.IH [OF this] show ?case
    by (auto simp: updateBest_def split: option.splits if_splits)
qed

lemma uninterrupted_call_optimal:
  assumes "bestRoute (getBestRoute noInterference s now ain from to intermediates minExpiryMs)
             = Some r"
  shows "\<forall>c \<in> set (candidateRoutes s now ain from to intermediates minExpiryMs).
           totalOut c \<le> totalOut r"
  using assms foldl_updateBest [of None _ r] by (simp add: getBestRoute_noInterference)

lemma example_default_candidates:
  "twoHopCandidates exampleCache 0 10000 ''BRL'' ''EUR'' [] 0 = [exampleTwoHop]"
  "threeHopCandidates exampleCache 0 10000 ''BRL'' ''EUR'' [] 0 = [[], []]"
  "oneHopCandidates exampleCache 0 10000 ''BRL'' ''EUR'' 0 = [exampleOneHop]"
  by (simp_all add: route_eval example_loads exampleTwoHop_def exampleOneHop_def
        quoteBrlUsdc_def quoteUsdcEur_def quoteBrlEur_def toRouteStep_def)

text \<open>
  C3, evaluated on the code. The claim is that the route a call returns has a \<open>totalOut\<close>
  at least that of every candidate constructed in that call. The best route so far is a
  field of the service, which every call sets to null when it starts. A call from BRL to
  EUR over the example cache constructs the two-hop route and the one-hop route; when
  another call starts while it waits in the 3-hop loop, the two-hop route is lost from the
  field and the call returns the one-hop route, whose \<open>totalOut\<close> is smaller.
\<close>

theorem getBestRoute_loses_best:
  "exampleTwoHop \<in> set (candidateRoutes exampleCache 0 10000 ''BRL'' ''EUR'' [] 0)
   \<and> bestRoute (getBestRoute startsDuringThreeHop exampleCache 0 10000 ''BRL'' ''EUR'' [] 0)
       = Some exampleOneHop
   \<and> totalOut exampleOneHop < totalOut exampleTwoHop
   \<and> bestRoute (getBestRoute noInterference exampleCache 0 10000 ''BRL'' ''EUR'' [] 0)
       = Some exampleTwoHop"
proof -
  have a: "exampleTwoHop \<in> set (candidateRoutes exampleCache 0 10000 ''BRL'' ''EUR'' [] 0)"
    by (simp add: candidateRoutes_def example_default_candidates)
  have b: "bestRoute (getBestRoute startsDuringThreeHop exampleCache 0 10000 ''BRL'' ''EUR'' [] 0)
             = Some exampleOneHop"
    by (simp add: getBestRoute_def Let_def example_default_candidates startsDuringThreeHop_def
          otherCallStarts_def updateBest_def)
  have c: "totalOut exampleOneHop < totalOut exampleTwoHop"
    by (simp add: exampleOneHop_def exampleTwoHop_def)
  have d: "bestRoute (getBestRoute noInterference exampleCache 0 10000 ''BRL'' ''EUR'' [] 0)
             = Some exampleTwoHop"
    using c
    by (simp add: getBestRoute_noInterference candidateRoutes_def example_default_candidates
          updateBest_def)
  from a b c d show ?thesis by simp
qed

subsection \<open>Shape of the returned route\<close>




















subsection \<open>Settlement scoring\<close>

lemma quoteSettlementDays_spec: "quoteSettlementDays q = specSettlementDays q"
  by (simp add: quoteSettlementDays_def specSettlementDays_def truthy_def split: option.splits)

lemma jsMax_Max: "xs \<noteq> [] \<Longrightarrow> jsMax xs = Some (Max (set xs))"
proof (induction xs)
  case Nil
  then show ?case by simp
next
  case (Cons x xs)
  show ?case
  proof (cases "xs = []")
    case True
    then show ?thesis by simp
  next
    case False
    with Cons.IH have "jsMax xs = Some (Max (set xs))" by simp
    with False show ?thesis by (simp add: Max_insert)
  qed
qed

lemma pair_key_eq:
  "(f @ CHR ''/'' # t = ''BRL/EUR'') = (f = ''BRL'' \<and> t = ''EUR'')"
  "(f @ CHR ''/'' # t = ''MXN/USD'') = (f = ''MXN'' \<and> t = ''USD'')"
  "(f @ CHR ''/'' # t = ''NGN/EUR'') = (f = ''NGN'' \<and> t = ''EUR'')"
  by (auto simp: append_eq_Cons_conv)

lemma volatility_spec: "getVolatilityForRoute r = specDailyVol r"
proof (cases "steps r")
  case Nil
  then show ?thesis by (simp add: getVolatilityForRoute_def specDailyVol_def)
next
  case (Cons first rest)
  then have "steps r ! (length (steps r) - 1) = last (steps r)"
    by (simp add: last_conv_nth)
  with Cons show ?thesis
    by (simp add: getVolatilityForRoute_def specDailyVol_def Let_def volatilityParams_def
          truthy_def pair_key_eq)
qed

lemma specDailyVol_pos: "0 < specDailyVol r"
  by (simp add: specDailyVol_def Let_def split: list.splits)

lemma risk_spec:
  assumes "venueId q \<notin> set inheritedMembers"
  shows "quoteCounterpartyRisk q = Some (effectiveCounterpartyRisk q)"
  using assms
  by (auto simp: quoteCounterpartyRisk_def effectiveCounterpartyRisk_def truthy_def lookupOr_def
        counterpartyRiskTable_def specVenueRisk_def split: option.splits)

lemma sumRisks_numbers: "sumRisks (Some a) (map Some xs) = Some (a + sum_list xs)"
  by (induction xs arbitrary: a) (simp_all add: add.assoc)

lemma average_spec:
  assumes "quotes \<noteq> []" and "\<forall>q \<in> set quotes. venueId q \<notin> set inheritedMembers"
  shows "getAverageCounterpartyRisk quotes =
           Some (sum_list (map effectiveCounterpartyRisk quotes) / real (length quotes))"
proof -
  have eq: "map quoteCounterpartyRisk quotes = map Some (map effectiveCounterpartyRisk quotes)"
    using assms(2) by (induction quotes) (simp_all add: risk_spec)
  show ?thesis
    unfolding getAverageCounterpartyRisk_def Let_def eq sumRisks_numbers
    using assms(1) by simp
qed

lemma effectiveCounterpartyRisk_nonneg:
  assumes "\<And>m. settlementMeta q = Some m \<Longrightarrow> 0 \<le> counterpartyRisk m"
  shows "0 \<le> effectiveCounterpartyRisk q"
  using assms
  by (auto simp: effectiveCounterpartyRisk_def specVenueRisk_def split: option.splits)

lemma timePenalty_spec:
  "calculateTimePenalty g (Some d) v = g * v * sqrt (max 0 d)"
  by (simp add: calculateTimePenalty_def Let_def max_def)

text \<open>
  C6, as amended. For a non-empty set of participating quotes whose venue ids are not
  names of members that every object inherits, the net output is
  \<open>max(0, gross - gross * dailyVol * sqrt(maxSettlementDays) * 1 - gross * avgRisk)\<close>, where
  \<open>dailyVol\<close> is the table entry of the route's pair or 0.005, \<open>maxSettlementDays\<close> is the
  greatest settlement days over the quotes (0 for a quote without \<open>settlementMeta\<close>),
  counted as 0 when it is negative, and \<open>avgRisk\<close> is the mean of the quotes' counterparty
  risks, a risk that is missing or zero being replaced by the default of the venue or by
  0.001; and when the counterparty risks are not negative, the net output does not exceed a
  gross output that is not negative.
\<close>

theorem calculateNetOutput_formula:
  assumes ne: "quotes \<noteq> []"
      and venues: "\<forall>q \<in> set quotes. venueId q \<notin> set inheritedMembers"
  shows "calculateNetOutput g r quotes =
           Some (max 0 (g - g * specDailyVol r
                              * sqrt (max 0 (Max (set (map specSettlementDays quotes)))) * 1
                          - g * (sum_list (map effectiveCounterpartyRisk quotes)
                                   / real (length quotes))))
         \<and> (0 \<le> g \<and> (\<forall>q \<in> set quotes. \<forall>m. settlementMeta q = Some m \<longrightarrow>
                          0 \<le> counterpartyRisk m)
              \<longrightarrow> (\<forall>net. calculateNetOutput g r quotes = Some net \<longrightarrow> net \<le> g))"
proof -
  let ?days = "map quoteSettlementDays quotes"
  let ?M = "Max (specSettlementDays ` set quotes)"
  let ?avg = "sum_list (map effectiveCounterpartyRisk quotes) / real (length quotes)"
  have days_eq: "?days = map specSettlementDays quotes"
    by (simp add: quoteSettlementDays_spec)
  have mx: "jsMax ?days = Some ?M"
    using ne jsMax_Max [of ?days] by (simp add: days_eq)
  have avg: "getAverageCounterpartyRisk quotes = Some ?avg"
    using ne venues by (rule average_spec)
  have formula: "calculateNetOutput g r quotes =
           Some (max 0 (g - g * specDailyVol r * sqrt (max 0 ?M) - g * ?avg))"
    by (simp add: calculateNetOutput_def Let_def mx avg volatility_spec timePenalty_spec)
  have bound: "max 0 (g - g * specDailyVol r * sqrt (max 0 ?M) - g * ?avg) \<le> g"
    if g0: "0 \<le> g"
    and risks: "\<forall>q \<in> set quotes. \<forall>m. settlementMeta q = Some m \<longrightarrow> 0 \<le> counterpartyRisk m"
  proof -
    have "0 \<le> sum_list (map effectiveCounterpartyRisk quotes)"
      using risks by (intro sum_list_nonneg) (auto intro: effectiveCounterpartyRisk_nonneg)
    then have a0: "0 \<le> g * ?avg"
      using g0 by simp
    have "0 \<le> g * specDailyVol r * sqrt (max 0 ?M)"
      using g0 specDailyVol_pos [of r] by simp
    with a0 g0 show ?thesis by simp
  qed
  from formula bound show ?thesis by simp
qed

theorem calculateNetOutput_formula_witness:
  "calculateNetOutput 1000 exampleNgnRoute [quoteNgnEurZero, quoteNgnEurOwn] = Some 981"
proof -
  have ne: "[quoteNgnEurZero, quoteNgnEurOwn] \<noteq> []" by simp
  have v: "\<forall>q \<in> set [quoteNgnEurZero, quoteNgnEurOwn]. venueId q \<notin> set inheritedMembers"
    by (simp add: quoteNgnEurZero_def quoteNgnEurOwn_def inheritedMembers_def)
  have vol: "specDailyVol exampleNgnRoute = 0.008"
    by (simp add: specDailyVol_def exampleNgnRoute_def toRouteStep_def quoteNgnEurZero_def)
  have d: "Max (set (map specSettlementDays [quoteNgnEurZero, quoteNgnEurOwn])) = 4"
    by (simp add: specSettlementDays_def quoteNgnEurZero_def quoteNgnEurOwn_def)
  have r: "sum_list (map effectiveCounterpartyRisk [quoteNgnEurZero, quoteNgnEurOwn]) = 0.006"
    by (simp add: effectiveCounterpartyRisk_def specVenueRisk_def quoteNgnEurZero_def
          quoteNgnEurOwn_def)
  have s: "sqrt 4 = 2" by simp
  from calculateNetOutput_formula [OF ne v, of 1000 exampleNgnRoute]
  show ?thesis
    unfolding vol d r by (simp add: s)
qed

text \<open>
  C6 as stated fails: in the claim the default replaces a counterparty risk that is
  missing. A quote of the venue \<open>otc:ngn-eur:provider1\<close> with counterparty risk 0 and
  settlement days 0 leaves a gross output of 1000 undiminished by the formula of the claim,
  while the code scores it with the default 0.002 of the venue and returns 998.
\<close>

theorem calculateNetOutput_formula_counterexample:
  "calculateNetOutput 1000 exampleNgnRoute [quoteNgnEurZero] = Some 998
   \<and> max 0 (1000 - 1000 * specDailyVol exampleNgnRoute
                      * sqrt (Max (set (map specSettlementDays [quoteNgnEurZero]))) * 1
                  - 1000 * (sum_list (map claimCounterpartyRisk [quoteNgnEurZero])
                              / real (length [quoteNgnEurZero]))) = 1000"
  by (simp add: calculateNetOutput_def Let_def quoteSettlementDays_def truthy_def
        calculateTimePenalty_def getAverageCounterpartyRisk_def quoteCounterpartyRisk_def
        lookupOr_def counterpartyRiskTable_def specSettlementDays_def
        claimCounterpartyRisk_def quoteNgnEurZero_def)

text \<open>
  A venue id that is the name of an inherited member makes the risk, and with it the net
  output, a value that is not a number.
\<close>

lemma inherited_member_not_a_number:
  "calculateNetOutput 1000 exampleNgnRoute
     [quoteNgnEurZero\<lparr>venueId := ''constructor''\<rparr>] = None"
  by (simp add: calculateNetOutput_def Let_def getAverageCounterpartyRisk_def
        quoteCounterpartyRisk_def truthy_def lookupOr_def counterpartyRiskTable_def
        inheritedMembers_def quoteNgnEurZero_def)

subsection \<open>Reservation\<close>

lemma redis_get_del: "redis_get (redis_del s k) k = None"
  by (simp add: redis_get_def redis_del_def AList.delete_conv')

lemma reserved_key_kept:
  "redis_get (redis_del (redis_set s (reservedQuoteKey qid) v) (provisionalQuoteKey qid))
     (reservedQuoteKey qid) = Some v"
  by (simp add: redis_get_def redis_del_def redis_set_def AList.delete_conv'
        AList.update_conv' reservedQuoteKey_def provisionalQuoteKey_def)

text \<open>
  C7. When the provisional quote of \<open>quoteId\<close> exists and has not expired,
  \<open>reserveQuote\<close> succeeds; the store it leaves holds the reserved record returned, made
  of the provisional quote, the client and the reservation window, under the reserved key,
  and in that store \<open>getProvisionalQuote\<close> of that \<open>quoteId\<close> is absent at every later
  instant.
\<close>

theorem reserve_removes_provisional:
  assumes "getProvisionalQuote s now qid = Some p"
  shows "\<exists>r s'. reserveQuote s now uuid qid client meta = Inr (r, s') \<and>
           redis_get s' (reservedQuoteKey qid) = Some (ReservedEntry r) \<and>
           ProvisionalQuote.truncate r = p \<and>
           reservationId r = ''reservation:'' @ uuid \<and> reservedByClient r = client \<and>
           reservedUntilTs r = now + 300 * 1000 \<and> otcReservationMeta r = meta \<and>
           (\<forall>now'. getProvisionalQuote s' now' qid = None)"
proof -
  let ?r = "ProvisionalQuote.extend p
              (ReservedQuote.fields (''reservation:'' @ uuid) client
                 (now + RESERVED_TTL_SEC * 1000) meta)"
  let ?s' = "redis_del (redis_set s (reservedQuoteKey qid) (ReservedEntry ?r))
               (provisionalQuoteKey qid)"
  have res: "reserveQuote s now uuid qid client meta = Inr (?r, ?s')"
    using assms by (simp add: reserveQuote_def Let_def)
  have kept: "redis_get ?s' (reservedQuoteKey qid) = Some (ReservedEntry ?r)"
    by (rule reserved_key_kept)
  have fields: "ProvisionalQuote.truncate ?r = p \<and>
           reservationId ?r = ''reservation:'' @ uuid \<and> reservedByClient ?r = client \<and>
           reservedUntilTs ?r = now + 300 * 1000 \<and> otcReservationMeta ?r = meta"
    by (cases p)
       (simp add: ProvisionalQuote.defs ReservedQuote.defs RESERVED_TTL_SEC_def)
  have gone: "getProvisionalQuote ?s' now' qid = None" for now'
    by (simp add: getProvisionalQuote_def redis_get_del)
  from res kept fields gone show ?thesis by blast
qed

lemma exampleQuoted_get:
  "getProvisionalQuote (snd exampleQuoted) 1000 ''quote:test-123'' = Some (fst exampleQuoted)"
  by (simp add: exampleQuoted_def storeProvisionalQuote_def Let_def getProvisionalQuote_def
        redis_get_def redis_set_def AList.update_conv' PROVISIONAL_TTL_SEC_def)

theorem reserve_removes_provisional_witness:
  "getProvisionalQuote (snd exampleQuoted) 1000 ''quote:test-123'' = Some (fst exampleQuoted)
   \<and> (\<exists>r s'. reserveQuote (snd exampleQuoted) 1000 ''test-456'' ''quote:test-123''
                 ''client-test-123'' None = Inr (r, s')
              \<and> redis_get s' (reservedQuoteKey ''quote:test-123'') = Some (ReservedEntry r)
              \<and> reservedByClient r = ''client-test-123''
              \<and> getProvisionalQuote s' 2000 ''quote:test-123'' = None)"
  using reserve_removes_provisional [OF exampleQuoted_get, of "''test-456''" "''client-test-123''" None]
        exampleQuoted_get
  by blast

subsection \<open>Deposit confirmation\<close>

text \<open>
  C8. \<open>confirmDeposit\<close> never rejects on the amount: for a payment reference with an
  existing deposit record and every received amount, the call succeeds with a record of
  status \<open>CONFIRMED\<close> holding that amount; a deviation beyond 0.1 percent of the expected
  amount only logs a warning.
\<close>

theorem confirmDeposit_never_rejects:
  assumes "redis_get s (''deposit:ref:'' @ ref) = Some (StringEntry did)"
      and "did \<noteq> []"
      and "redis_get s (depositKey did) = Some (DepositEntry d)"
  shows "\<exists>rec s' w. confirmDeposit s now ref received tx = Inr (rec, s', w) \<and>
           drStatus rec = CONFIRMED \<and> amountReceived rec = Some received \<and>
           (w \<noteq> [] \<longleftrightarrow> \<bar>received - amountExpected d\<bar> > amountExpected d * 0.001)"
  using assms by (simp add: confirmDeposit_def Let_def)

theorem confirmDeposit_never_rejects_witness:
  "\<exists>rec s' w. confirmDeposit exampleDepositStore 1000 ''rreservat-client-t'' 5000 None
                  = Inr (rec, s', w)
      \<and> drStatus rec = CONFIRMED \<and> amountReceived rec = Some 5000 \<and> w \<noteq> []"
proof -
  have a: "redis_get exampleDepositStore (''deposit:ref:'' @ ''rreservat-client-t'')
             = Some (StringEntry ''deposit:test-111'')"
    by (simp add: exampleDepositStore_def redis_get_def)
  have b: "''deposit:test-111'' \<noteq> []" by simp
  have c: "redis_get exampleDepositStore (depositKey ''deposit:test-111'')
             = Some (DepositEntry exampleDeposit)"
    by (simp add: exampleDepositStore_def redis_get_def depositKey_def)
  have e: "amountExpected exampleDeposit = 10000" by (simp add: exampleDeposit_def)
  from confirmDeposit_never_rejects [OF a b c, of 1000 5000 None] show ?thesis
    unfolding e by auto
qed

subsection \<open>PIX QR code\<close>

lemma funpow8: "(f ^^ 8) x = f (f (f (f (f (f (f (f x)))))))"
  by (simp add: eval_nat_numeral)

lemma crc_payload: "crc16ccitt pixPayload = 0x4C54"
  by (simp add: crc16ccitt_def pixPayload_def crcByte_def crcShift_def funpow8)

lemma hex_payload: "hex4 0x4C54 = ''4C54''"
  by (simp add: hex4_def hexDigit_def drop_bit_eq_div)

text \<open>
  C9, evaluated on the code. The claim is that the QR code of a PIX deposit ends with the
  CRC16-CCITT checksum of the text before it. The code ends every QR code with the constant
  \<open>ABCD\<close>, while the checksum of the text before it is \<open>4C54\<close>.
\<close>

theorem pix_crc:
  "generatePixQrCode ref amt = pixPayload @ ''ABCD'' \<and> hex4 (crc16ccitt pixPayload) = ''4C54''"
  by (simp add: generatePixQrCode_def calculatePixCrc_def crc_payload hex_payload)

subsection \<open>Quotes found for scoring\<close>

lemma cacheInv_cacheQuote: "cacheInv s \<Longrightarrow> cacheInv (cacheQuote s q)"
  by (auto simp: cacheInv_def cacheQuote_def redis_set_def AList.update_conv')

lemma cacheInv_cacheQuotes: "cacheInv s \<Longrightarrow> cacheInv (cacheQuotes s qs)"
  unfolding cacheQuotes_def
  by (induction qs arbitrary: s) (simp_all add: cacheInv_cacheQuote)

lemma cacheInv_empty: "cacheInv []"
  by (simp add: cacheInv_def)

lemma otc_key_not_read:
  "\<not> startsWith (venueId q) ''dex:'' \<Longrightarrow> routeQuoteKey st \<noteq> quoteCacheKey q"
  by (simp add: routeQuoteKey_def quoteCacheKey_def otcQuoteKey_def)

lemma set_map_filter_iff: "y \<in> set (List.map_filter f xs) \<longleftrightarrow> (\<exists>x \<in> set xs. f x = Some y)"
  by (induction xs) (auto split: option.splits)

lemma parseQuote_Some: "parseQuote v = Some q \<longleftrightarrow> v = Some (QuoteEntry q)"
  by (auto simp: parseQuote_def split: option.splits entry.splits)

lemma getQuotesForRoute_elem:
  assumes "q \<in> set (getQuotesForRoute s r)"
  shows "\<exists>st \<in> set (steps r). redis_get s (routeQuoteKey st) = Some (QuoteEntry q)"
proof -
  from assms obtain st where "st \<in> set (steps r)"
    and "(if stepFromToken st = [] \<or> stepToToken st = [] \<or> stepVenueId st = [] then None
          else parseQuote (redis_get s (routeQuoteKey st))) = Some q"
    by (auto simp: getQuotesForRoute_def set_map_filter_iff split: if_splits)
  then show ?thesis
    by (auto simp: parseQuote_Some split: if_splits)
qed

lemma getQuotesForRoute_dex_only:
  assumes "cacheInv s" and "q \<in> set (getQuotesForRoute s r)"
  shows "startsWith (venueId q) ''dex:''"
proof (rule ccontr)
  assume otc: "\<not> startsWith (venueId q) ''dex:''"
  from getQuotesForRoute_elem [OF assms(2)] obtain st where
    "map_of s (routeQuoteKey st) = Some (QuoteEntry q)"
    by (auto simp: redis_get_def)
  with assms(1) have "routeQuoteKey st = quoteCacheKey q"
    by (auto simp: cacheInv_def)
  with otc_key_not_read [OF otc] show False by blast
qed

text \<open>
  C10, as amended. An OTC quote (venue not starting with \<open>dex:\<close>) is written by
  \<open>cacheQuote\<close> under the key \<open>otc:quotes:{from}:{to}:{venueId}\<close>, which
  \<open>getQuotesForRoute\<close> never reads; in a store filled by \<open>cacheQuotes\<close> the lookup never
  returns it, and returns quotes of DEX venues only. For a route without a DEX step the
  scorer therefore receives no quote and scores with the defaults (settlement days 0,
  counterparty risk 0.001).
\<close>

theorem otc_quotes_never_scored:
  assumes "\<not> startsWith (venueId q) ''dex:''"
  shows "quoteCacheKey q = ''otc:quotes:'' @ fromToken q @ '':'' @ toToken q @ '':'' @ venueId q
       \<and> routeQuoteKey st \<noteq> quoteCacheKey q
       \<and> q \<notin> set (getQuotesForRoute (cacheQuotes [] qs) r)
       \<and> (\<forall>q' \<in> set (getQuotesForRoute (cacheQuotes [] qs) r). startsWith (venueId q') ''dex:'')
       \<and> ((\<forall>st \<in> set (steps r). \<not> startsWith (stepVenueId st) ''dex:'') \<longrightarrow>
            getQuotesForRoute (cacheQuotes [] qs) r = [] \<and>
            smSettlementDays (getScoringMetadata r (getQuotesForRoute (cacheQuotes [] qs) r)) = 0 \<and>
            smCounterpartyRisk (getScoringMetadata r (getQuotesForRoute (cacheQuotes [] qs) r))
              = Some 0.001)"
proof -
  let ?s = "cacheQuotes [] qs"
  have inv: "cacheInv ?s"
    by (rule cacheInv_cacheQuotes [OF cacheInv_empty])
  have k: "quoteCacheKey q = ''otc:quotes:'' @ fromToken q @ '':'' @ toToken q @ '':'' @ venueId q"
    using assms by (simp add: quoteCacheKey_def otcQuoteKey_def)
  have dex: "\<forall>q' \<in> set (getQuotesForRoute ?s r). startsWith (venueId q') ''dex:''"
    using getQuotesForRoute_dex_only [OF inv] by blast
  have notin: "q \<notin> set (getQuotesForRoute ?s r)"
    using dex assms by blast
  have empty: "getQuotesForRoute ?s r = []"
    if otc: "\<forall>st \<in> set (steps r). \<not> startsWith (stepVenueId st) ''dex:''"
  proof (rule ccontr)
    assume "getQuotesForRoute ?s r \<noteq> []"
    then obtain q' where q': "q' \<in> set (getQuotesForRoute ?s r)"
      by (cases "getQuotesForRoute ?s r") auto
    from getQuotesForRoute_elem [OF q'] obtain st' where st': "st' \<in> set (steps r)"
      and g: "map_of ?s (routeQuoteKey st') = Some (QuoteEntry q')"
      by (auto simp: redis_get_def)
    from inv g have "routeQuoteKey st' = quoteCacheKey q'"
      by (auto simp: cacheInv_def)
    moreover from otc st' have "\<not> startsWith (stepVenueId st') ''dex:''" by blast
    ultimately show False
      by (simp add: routeQuoteKey_def quoteCacheKey_def otcQuoteKey_def routingEdgeKey_def
               split: if_splits)
  qed
  have meta: "smSettlementDays (getScoringMetadata r []) = 0 \<and>
              smCounterpartyRisk (getScoringMetadata r []) = Some 0.001"
    by (simp add: getScoringMetadata_def Let_def getAverageCounterpartyRisk_def)
  from k otc_key_not_read [OF assms] notin dex empty meta show ?thesis
    by simp
qed

lemma exampleTwoHop_otc:
  "\<forall>st \<in> set (steps exampleTwoHop). \<not> startsWith (stepVenueId st) ''dex:''"
  by (simp add: exampleTwoHop_def toRouteStep_def quoteBrlUsdc_def quoteUsdcEur_def startsWith_def)

theorem otc_quotes_never_scored_witness:
  "quoteCacheKey quoteBrlUsdc = ''otc:quotes:BRL:USDC:otc:brl-eur:provider1''
   \<and> getQuotesForRoute exampleCache exampleTwoHop = []
   \<and> smSettlementDays (getScoringMetadata exampleTwoHop
        (getQuotesForRoute exampleCache exampleTwoHop)) = 0
   \<and> smCounterpartyRisk (getScoringMetadata exampleTwoHop
        (getQuotesForRoute exampleCache exampleTwoHop)) = Some 0.001"
proof -
  have h: "\<not> startsWith (venueId quoteBrlUsdc) ''dex:''"
    by (simp add: quoteBrlUsdc_def startsWith_def)
  have k: "''otc:quotes:'' @ fromToken quoteBrlUsdc @ '':'' @ toToken quoteBrlUsdc @ '':''
             @ venueId quoteBrlUsdc = ''otc:quotes:BRL:USDC:otc:brl-eur:provider1''"
    by (simp add: quoteBrlUsdc_def)
  from otc_quotes_never_scored [OF h, of _ "[quoteBrlUsdc, quoteUsdcEur, quoteBrlEur]" exampleTwoHop]
       exampleTwoHop_otc
  show ?thesis
    unfolding k exampleCache_def by blast
qed

text \<open>
  C10 as stated fails: the claim has the scorer receive no quote for any route whose OTC
  edges were cached by the prefetch path. For the route from BRL to EUR through USDC and
  EURC over a cache filled by \<open>cacheQuotes\<close>, whose middle step is a DEX step, the lookup
  returns the DEX quote, and the scorer takes its settlement days 0.01 and its counterparty
  risk 0.0001 in place of the defaults.
\<close>

theorem otc_quotes_never_scored_counterexample:
  "bestRoute (getBestRoute noInterference exampleMixedCache 0 10000 ''BRL'' ''EUR''
                [''USDC'', ''EURC''] 0) = Some exampleMixedRoute
   \<and> getQuotesForRoute exampleMixedCache exampleMixedRoute = [quoteUsdcEurc]
   \<and> smSettlementDays (getScoringMetadata exampleMixedRoute
        (getQuotesForRoute exampleMixedCache exampleMixedRoute)) = 0.01
   \<and> smCounterpartyRisk (getScoringMetadata exampleMixedRoute
        (getQuotesForRoute exampleMixedCache exampleMixedRoute)) = Some 0.0001"
proof -
  have store: "exampleMixedCache =
    [(''otc:quotes:BRL:USDC:otc:brl-eur:provider1'', QuoteEntry quoteBrlUsdc),
     (''routing:edge:solana:USDC:EURC:dex:jupiter'', QuoteEntry quoteUsdcEurc),
     (''otc:quotes:EURC:EUR:otc:stablecoin:provider1'', QuoteEntry quoteEurcEur)]"
    by (simp add: exampleMixedCache_def cacheQuotes_def cacheQuote_def quoteCacheKey_def
          startsWith_def otcQuoteKey_def routingEdgeKey_def redis_set_def quoteBrlUsdc_def
          quoteUsdcEurc_def quoteEurcEur_def)
  have loads:
    "loadQuotes exampleMixedCache ''BRL'' ''EUR'' = []"
    "loadQuotes exampleMixedCache ''BRL'' ''USDC'' = [quoteBrlUsdc]"
    "loadQuotes exampleMixedCache ''USDC'' ''EUR'' = []"
    "loadQuotes exampleMixedCache ''BRL'' ''EURC'' = []"
    "loadQuotes exampleMixedCache ''EURC'' ''EUR'' = [quoteEurcEur]"
    "loadQuotes exampleMixedCache ''USDC'' ''EURC'' = [quoteUsdcEurc]"
    "loadQuotes exampleMixedCache ''EURC'' ''USDC'' = []"
    by (simp_all add: store load_eval)
  have best: "bestRoute (getBestRoute noInterference exampleMixedCache 0 10000 ''BRL'' ''EUR''
                [''USDC'', ''EURC''] 0) = Some exampleMixedRoute"
    by (simp add: getBestRoute_noInterference route_eval loads updateBest_def
          exampleMixedRoute_def quoteBrlUsdc_def quoteUsdcEurc_def quoteEurcEur_def
          toRouteStep_def)
  have found: "getQuotesForRoute exampleMixedCache exampleMixedRoute = [quoteUsdcEurc]"
    by (simp add: store getQuotesForRoute_def routeQuoteKey_def redis_get_def parseQuote_def
          exampleMixedRoute_def toRouteStep_def startsWith_def quoteBrlUsdc_def
          quoteUsdcEurc_def quoteEurcEur_def)
  have meta: "smSettlementDays (getScoringMetadata exampleMixedRoute [quoteUsdcEurc]) = 0.01
     \<and> smCounterpartyRisk (getScoringMetadata exampleMixedRoute [quoteUsdcEurc]) = Some 0.0001"
    by (simp add: getScoringMetadata_def Let_def getAverageCounterpartyRisk_def
          quoteSettlementDays_def quoteCounterpartyRisk_def truthy_def quoteUsdcEurc_def)
  from best found meta show ?thesis by simp
qed

subsection \<open>Execution records and the driver\<close>

lemma getExecution_saveExecution:
  "getExecution (saveExecution s r) (executionId r) = Some r"
  by (simp add: getExecution_def saveExecution_def redis_get_def redis_set_def
        AList.update_conv')

lemma updateExecution_Some:
  assumes "getExecution s eid = Some e"
  shows "updateExecution s eid f = Inr (f e, saveExecution s (f e))"
  using assms by (simp add: updateExecution_def Let_def)

lemmas exec_eval = getExecution_def saveExecution_def updateExecution_def completeExecution_def
  failExecution_def tryExecute_def redis_get_def redis_set_def errorMessage_def

lemma always_failing_step_diverges:
  assumes "getExecution s eid = Some e" and "executionId e = eid"
      and "fallbackRoute e = Some fb" and "steps (exRoute e) \<noteq> []" and "steps fb \<noteq> []"
  shows "executeRouteAsync fuel (\<lambda>n i. Inl msg) n now s eid = None"
  using assms
proof (induction fuel arbitrary: s e n)
  case 0
  then show ?case by simp
next
  case (Suc fuel)
  let ?e1 = "e\<lparr>currentStep := Some 0\<rparr>"
  let ?s1 = "saveExecution s ?e1"
  let ?e2 = "e\<lparr>exRoute := fb, status := EXECUTING, currentStep := Some 0,
                 transactionHashes := Some [], error := None\<rparr>"
  let ?s2 = "saveExecution ?s1 ?e2"
  from Suc.prems(4) obtain k where len: "length (steps (exRoute e)) = Suc k"
    by (cases "steps (exRoute e)") auto
  have upt: "[0 ..< Suc k] = 0 # [1 ..< Suc k]"
    by (simp add: upt_rec)
  have run: "runSteps (\<lambda>i. Inl msg) eid [0 ..< length (steps (exRoute e))]
               (transactionHashes e) s = Inl (msg, ?s1)"
    unfolding len upt
    by (simp add: updateExecution_Some [OF Suc.prems(1)])
  have tr: "tryExecute (\<lambda>i. Inl msg) now eid e s = Inl (msg, ?s1)"
    by (simp add: tryExecute_def run)
  have g1: "getExecution ?s1 eid = Some ?e1"
    using getExecution_saveExecution [of s ?e1] Suc.prems(2) by simp
  have fail: "failExecution ?s1 now eid msg True = Inr (Some ?e2, ?s2)"
    using Suc.prems(3)
    by (simp add: failExecution_def g1 updateExecution_Some [OF g1])
  have g2: "getExecution ?s2 eid = Some ?e2"
    using getExecution_saveExecution [of ?s1 ?e2] Suc.prems(2) by simp
  have ih: "executeRouteAsync fuel (\<lambda>n i. Inl msg) (Suc n) now ?s2 eid = None"
    by (rule Suc.IH [OF g2]) (use Suc.prems in simp_all)
  show ?case
    using Suc.prems(3)
    by (simp add: Suc.prems(1) tr g1 fail ih)
qed


text \<open>
  C2, evaluated on the code. The claim is that the driver switches to the fallback route at
  most once and that a failure while executing the fallback ends in \<open>FAILED\<close>.
  \<open>failExecution\<close> leaves \<open>fallbackRoute\<close> in the record, so every failure finds it and
  switches again: when the steps fail in the first two runs, the driver switches twice and
  then completes; when the steps always fail, no amount of fuel lets the driver return, and
  the record never becomes \<open>FAILED\<close>.
\<close>

theorem fallback_used_repeatedly:
  "(case executeRouteAsync 3 failTwice 0 5000 exampleFallbackStore ''exec:test-789'' of
      Some (s, logs) \<Rightarrow>
        logs = [''Primary route failed, attempting fallback'',
                ''Primary route failed, attempting fallback'']
        \<and> map_option status (getExecution s ''exec:test-789'') = Some COMPLETED
    | None \<Rightarrow> False)
   \<and> (\<forall>fuel. executeRouteAsync fuel alwaysFail 0 5000 exampleFallbackStore ''exec:test-789''
         = None)"
proof -
  have a: "executeRouteAsync 3 failTwice 0 5000 exampleFallbackStore ''exec:test-789'' =
     Some ([(''exec:exec:test-789'',
             ExecutionEntry (exampleFallbackExecution
               \<lparr>exRoute := dexFallback, status := COMPLETED,
                transactionHashes := Some [''0xabc'', ''0xabc''], currentStep := None,
                completedAt := Some 5000\<rparr>)),
            (''execution:quote:quote:test-123'', StringEntry ''exec:test-789'')],
           [''Primary route failed, attempting fallback'',
            ''Primary route failed, attempting fallback''])"
    by (simp add: eval_nat_numeral exec_eval failTwice_def exampleFallbackStore_def
          exampleFallbackExecution_def dexPrimary_def dexFallback_def upt_rec Let_def)
  have g: "getExecution exampleFallbackStore ''exec:test-789'' = Some exampleFallbackExecution"
    by (simp add: getExecution_def redis_get_def exampleFallbackStore_def)
  have b: "executeRouteAsync fuel alwaysFail 0 5000 exampleFallbackStore ''exec:test-789'' = None"
    for fuel
    unfolding alwaysFail_def
    by (rule always_failing_step_diverges [OF g, where fb = dexFallback])
       (simp_all add: exampleFallbackExecution_def dexPrimary_def dexFallback_def)
  show ?thesis
    unfolding a using b by (simp add: getExecution_def redis_get_def)
qed


subsection \<open>Idempotence of the deposit confirmation\<close>

lemma getExecution_set_deposit:
  "getExecution (redis_set s (depositKey k) v) eid = getExecution s eid"
  by (simp add: getExecution_def redis_get_def redis_set_def AList.update_conv' depositKey_def)

lemma confirmDeposit_getExecution:
  assumes "confirmDeposit s now ref a tx = Inr (d, s1, w)"
  shows "getExecution s1 eid = getExecution s eid"
  using assms
  by (auto simp: confirmDeposit_def Let_def getExecution_set_deposit
           split: option.splits entry.splits if_splits)

lemma getReservedQuote_Some:
  "getReservedQuote s now q = (Some r, s2) \<Longrightarrow> s2 = s"
  by (auto simp: getReservedQuote_def split: option.splits entry.splits if_splits)

lemma findExecution_Cons:
  "findExecutionByQuoteId s q = e # es \<Longrightarrow> \<exists>idx. getExecution s idx = Some e"
  by (auto simp: findExecutionByQuoteId_def split: option.splits entry.splits if_splits)

lemma depositWebhook_success:
  assumes w: "depositWebhook s now req = (resp, s')" and ok: "success resp"
      and cons: "execConsistent s"
  shows "\<exists>eid e. respExecutionId resp = Some eid \<and> getExecution s' eid = Some e
                 \<and> status e = EXECUTING"
proof -
  from w ok obtain deposit s1 wn reserved s2 execution rest upd s3 where
      c: "confirmDeposit s now (reqPaymentReference req) (reqAmountReceived req)
            (reqBankTxId req) = Inr (deposit, s1, wn)"
    and r: "getReservedQuote s1 now (drQuoteId deposit) = (Some reserved, s2)"
    and f: "findExecutionByQuoteId s2 (drQuoteId deposit) = execution # rest"
    and u0: "updateExecution s2 (executionId execution) (\<lambda>e. e\<lparr>status := EXECUTING\<rparr>)
              = Inr (upd, s3)"
    and resp: "respExecutionId resp = Some (executionId execution)" and s': "s' = s3"
    by (auto simp: depositWebhook_def Let_def
             split: sum.splits prod.splits option.splits list.splits)
  from r have "s2 = s1" by (rule getReservedQuote_Some)
  with u0 have u: "updateExecution s1 (executionId execution) (\<lambda>e. e\<lparr>status := EXECUTING\<rparr>)
              = Inr (upd, s3)" by simp
  have eq: "getExecution s1 eid = getExecution s eid" for eid
    using c by (rule confirmDeposit_getExecution)
  from u obtain existing where ex: "getExecution s1 (executionId execution) = Some existing"
    by (auto simp: updateExecution_def split: option.splits)
  with cons eq have id: "executionId existing = executionId execution"
    by (auto simp: execConsistent_def)
  from u ex have s3: "s3 = saveExecution s1 (existing\<lparr>status := EXECUTING\<rparr>)"
    by (auto simp: updateExecution_Some)
  have "getExecution s3 (executionId execution) = Some (existing\<lparr>status := EXECUTING\<rparr>)"
    unfolding s3 using getExecution_saveExecution [of s1 "existing\<lparr>status := EXECUTING\<rparr>"] id
    by simp
  with resp s' show ?thesis by simp
qed

text \<open>
  C1, as amended. For a payment reference whose deposit record is stored under its own
  \<open>depositId\<close> (an identifier other than \<open>ref:\<close> followed by the reference, whose key
  would be that of the reference index), two successive calls of \<open>confirmDeposit\<close> with the same amount and bank
  transaction succeed with the same warnings and the same record content, except
  \<open>receivedAt\<close>, which is the time of each call. The webhook does not look at the status of
  the deposit: every call that succeeds leaves the execution record it names in status
  \<open>EXECUTING\<close> (and starts the driver), whatever its status was.
\<close>

theorem confirmDeposit_twice:
  assumes ref: "redis_get s (''deposit:ref:'' @ ref) = Some (StringEntry did)"
      and ne: "did \<noteq> []"
      and notref: "did \<noteq> ''ref:'' @ ref"
      and dep: "redis_get s (depositKey did) = Some (DepositEntry d)"
      and own: "depositId d = did"
  shows "(\<exists>r1 s1 w r2 s2.
            confirmDeposit s t1 ref a tx = Inr (r1, s1, w) \<and>
            confirmDeposit s1 t2 ref a tx = Inr (r2, s2, w) \<and>
            drStatus r1 = CONFIRMED \<and> r2 = r1\<lparr>receivedAt := Some t2\<rparr>)
       \<and> (execConsistent s0 \<longrightarrow> success (fst (depositWebhook s0 now req)) \<longrightarrow>
            (\<exists>eid e. respExecutionId (fst (depositWebhook s0 now req)) = Some eid \<and>
                      getExecution (snd (depositWebhook s0 now req)) eid = Some e \<and>
                      status e = EXECUTING))"
proof -
  let ?r1 = "d\<lparr>amountReceived := Some a, drStatus := CONFIRMED, receivedAt := Some t1,
               bankTxId := tx\<rparr>"
  let ?s1 = "redis_set s (depositKey did) (DepositEntry ?r1)"
  let ?w = "if \<bar>a - amountExpected d\<bar> > amountExpected d * 0.001
            then [''Deposit amount mismatch''] else []"
  have first: "confirmDeposit s t1 ref a tx = Inr (?r1, ?s1, ?w)"
    using ref ne dep own by (simp add: confirmDeposit_def Let_def)
  have ref1: "redis_get ?s1 (''deposit:ref:'' @ ref) = Some (StringEntry did)"
    using ref notref
    by (simp add: redis_get_def redis_set_def AList.update_conv' depositKey_def)
  have dep1: "redis_get ?s1 (depositKey did) = Some (DepositEntry ?r1)"
    by (simp add: redis_get_def redis_set_def AList.update_conv')
  let ?r2 = "d\<lparr>amountReceived := Some a, drStatus := CONFIRMED, receivedAt := Some t2,
               bankTxId := tx\<rparr>"
  have second: "confirmDeposit ?s1 t2 ref a tx =
      Inr (?r2, redis_set ?s1 (depositKey did) (DepositEntry ?r2), ?w)"
    using ref1 ne dep1 own by (simp add: confirmDeposit_def Let_def)
  have r2: "?r2 = ?r1\<lparr>receivedAt := Some t2\<rparr>"
    by (cases d) simp
  have part1: "\<exists>r1 s1 w r2 s2.
            confirmDeposit s t1 ref a tx = Inr (r1, s1, w) \<and>
            confirmDeposit s1 t2 ref a tx = Inr (r2, s2, w) \<and>
            drStatus r1 = CONFIRMED \<and> r2 = r1\<lparr>receivedAt := Some t2\<rparr>"
    using first second r2 by (intro exI conjI) (assumption, assumption, simp, assumption)
  have part2: "\<exists>eid e. respExecutionId (fst (depositWebhook s0 now req)) = Some eid \<and>
                      getExecution (snd (depositWebhook s0 now req)) eid = Some e \<and>
                      status e = EXECUTING"
    if "execConsistent s0" and "success (fst (depositWebhook s0 now req))"
    using depositWebhook_success [of s0 now req "fst (depositWebhook s0 now req)"
            "snd (depositWebhook s0 now req)"] that
    by simp
  from part1 part2 show ?thesis by blast
qed

lemma exampleReserved_fields:
  "quoteId exampleReserved = ''quote:test-123''" "reservedUntilTs exampleReserved = 300000"
  by (simp_all add: exampleReserved_def ProvisionalQuote.defs ReservedQuote.defs
        exampleQuoted_def storeProvisionalQuote_def Let_def)

lemma webhook_eval:
  assumes "executionId e = ''exec:test-789''" and "depositId d = ''deposit:test-111''"
      and "drQuoteId d = ''quote:test-123''" and "now < 300000"
  shows "depositWebhook (exampleStoreWith d e) now exampleRequest =
           (exampleOk,
            exampleStoreWith (d\<lparr>amountReceived := Some 10000, drStatus := CONFIRMED,
                                receivedAt := Some now, bankTxId := Some ''pix-tx-123''\<rparr>)
                             (e\<lparr>status := EXECUTING\<rparr>))"
  using assms
  by (simp add: depositWebhook_def confirmDeposit_def getReservedQuote_def
        findExecutionByQuoteId_def exec_eval exampleStoreWith_def exampleRequest_def
        exampleOk_def depositKey_def reservedQuoteKey_def exampleReserved_fields Let_def)

lemma driver_eval:
  "executeRouteAsync 1 allSucceed 0 2000
     (exampleStoreWith (exampleConfirmed 1000) (exampleExecution\<lparr>status := EXECUTING\<rparr>))
     ''exec:test-789''
   = Some (exampleStoreWith (exampleConfirmed 1000) exampleCompleted, [])"
  by (simp add: exec_eval allSucceed_def exampleStoreWith_def exampleExecution_def
        exampleCompleted_def exampleTwoHop_def upt_rec Let_def)

lemma example_execConsistent:
  "execConsistent (exampleStoreWith exampleDeposit exampleExecution)"
  by (auto simp: execConsistent_def getExecution_def redis_get_def exampleStoreWith_def
        exampleExecution_def split: if_splits)

theorem confirmDeposit_twice_witness:
  "(\<exists>r1 s1 w r2 s2.
      confirmDeposit exampleDepositStore 1000 ''rreservat-client-t'' 10000 None = Inr (r1, s1, w) \<and>
      confirmDeposit s1 3000 ''rreservat-client-t'' 10000 None = Inr (r2, s2, w) \<and>
      drStatus r1 = CONFIRMED \<and> r2 = r1\<lparr>receivedAt := Some 3000\<rparr>)
   \<and> (\<exists>eid e.
        respExecutionId (fst (depositWebhook (exampleStoreWith exampleDeposit exampleExecution)
                                1000 exampleRequest)) = Some eid \<and>
        getExecution (snd (depositWebhook (exampleStoreWith exampleDeposit exampleExecution)
                             1000 exampleRequest)) eid = Some e \<and>
        status e = EXECUTING)"
proof -
  have a: "redis_get exampleDepositStore (''deposit:ref:'' @ ''rreservat-client-t'')
             = Some (StringEntry ''deposit:test-111'')"
    by (simp add: exampleDepositStore_def redis_get_def)
  have b: "''deposit:test-111'' \<noteq> []" by simp
  have b': "''deposit:test-111'' \<noteq> ''ref:'' @ ''rreservat-client-t''" by simp
  have c: "redis_get exampleDepositStore (depositKey ''deposit:test-111'')
             = Some (DepositEntry exampleDeposit)"
    by (simp add: exampleDepositStore_def redis_get_def depositKey_def)
  have d: "depositId exampleDeposit = ''deposit:test-111''"
    by (simp add: exampleDeposit_def)
  have w: "depositWebhook (exampleStoreWith exampleDeposit exampleExecution) 1000 exampleRequest
     = (exampleOk, exampleStoreWith (exampleConfirmed 1000)
                     (exampleExecution\<lparr>status := EXECUTING\<rparr>))"
    unfolding exampleConfirmed_def
    by (rule webhook_eval) (simp_all add: exampleExecution_def exampleDeposit_def)
  have ok: "success (fst (depositWebhook (exampleStoreWith exampleDeposit exampleExecution)
                            1000 exampleRequest))"
    by (simp add: w exampleOk_def)
  from confirmDeposit_twice [OF a b b' c d, of 1000 10000 None 3000
         "exampleStoreWith exampleDeposit exampleExecution" 1000 exampleRequest]
       example_execConsistent ok
  show ?thesis by blast
qed

text \<open>
  C1 as stated fails: after a first webhook call has set the execution to \<open>EXECUTING\<close>
  and the driver has completed it, a second webhook call with the same arguments succeeds
  again, sets the completed execution back to \<open>EXECUTING\<close> and changes \<open>receivedAt\<close> of
  the deposit record.
\<close>

theorem deposit_webhook_retriggers_counterexample:
  "depositWebhook (exampleStoreWith exampleDeposit exampleExecution) 1000 exampleRequest
     = (exampleOk, exampleStoreWith (exampleConfirmed 1000)
                     (exampleExecution\<lparr>status := EXECUTING\<rparr>))
   \<and> executeRouteAsync 1 allSucceed 0 2000
       (exampleStoreWith (exampleConfirmed 1000) (exampleExecution\<lparr>status := EXECUTING\<rparr>))
       ''exec:test-789''
     = Some (exampleStoreWith (exampleConfirmed 1000) exampleCompleted, [])
   \<and> depositWebhook (exampleStoreWith (exampleConfirmed 1000) exampleCompleted) 3000
       exampleRequest
     = (exampleOk, exampleStoreWith (exampleConfirmed 3000)
                     (exampleCompleted\<lparr>status := EXECUTING\<rparr>))
   \<and> status exampleExecution = PENDING_APPROVAL \<and> status exampleCompleted = COMPLETED
   \<and> exampleConfirmed 3000 \<noteq> exampleConfirmed 1000"
proof -
  have a: "depositWebhook (exampleStoreWith exampleDeposit exampleExecution) 1000 exampleRequest
     = (exampleOk, exampleStoreWith (exampleConfirmed 1000)
                     (exampleExecution\<lparr>status := EXECUTING\<rparr>))"
    unfolding exampleConfirmed_def
    by (rule webhook_eval) (simp_all add: exampleExecution_def exampleDeposit_def)
  have c: "depositWebhook (exampleStoreWith (exampleConfirmed 1000) exampleCompleted) 3000
       exampleRequest
     = (exampleOk, exampleStoreWith (exampleConfirmed 3000)
                     (exampleCompleted\<lparr>status := EXECUTING\<rparr>))"
    using webhook_eval [of exampleCompleted "exampleConfirmed 1000" 3000]
    by (simp add: exampleCompleted_def exampleExecution_def exampleConfirmed_def
          exampleDeposit_def)
  have d: "status exampleExecution = PENDING_APPROVAL \<and> status exampleCompleted = COMPLETED
           \<and> exampleConfirmed 3000 \<noteq> exampleConfirmed 1000"
    by (simp add: exampleExecution_def exampleCompleted_def exampleConfirmed_def
          exampleDeposit_def)
  from a driver_eval c d show ?thesis by simp
qed



end
